theory Spec2Isabelle
  imports Complex_Main
begin

section \<open>The discrete navigation planner\<close>

text \<open>
  A shallow embedding of \<^verbatim>\<open>DiscretePlanner\<close> (discrete_planner.py). Python integers are
  \<open>int\<close>, a two-dimensional numpy array is its shape together with its cells. A Python
  float is the real number it stands for; floats are taken to be finite. The operations on
  floats that round are not computed in the model: they are the fields of a parameter of
  type \<open>float_arith\<close>, so that what is proved holds for every floating-point arithmetic,
  the double precision of the source among them. Every exception of the source is a value of type
  \<open>error\<close>; a function that can raise returns \<open>error + 'a\<close>. A cycle that raises is
  abandoned: the model returns the error alone and does not follow the partly updated planner.
\<close>

subsection \<open>Values, errors and arrays\<close>

datatype error = ValueError | IndexError | TypeError | ZeroDivisionError | OverflowError

text \<open>
  Modelled from the spec: the enumeration \<^verbatim>\<open>DiscreteNavigationAction\<close> is declared in
  \<^verbatim>\<open>home_robot.core.interfaces\<close>, which is not among the sources; the planner emits the
  four members of the closed set given by the specification.
\<close>

datatype DiscreteNavigationAction = STOP | MOVE_FORWARD | TURN_LEFT | TURN_RIGHT

record 'a ndarray =
  shape0 :: nat
  shape1 :: nat
  cells :: "nat \<Rightarrow> nat \<Rightarrow> 'a"

type_synonym pose = "real \<times> real \<times> real"

text \<open>
  The floating-point operations of the source whose result is rounded: the four arithmetic
  operators, the conversion of an integer, \<^verbatim>\<open>np.cos\<close>, \<^verbatim>\<open>np.sin\<close>,
  \<^verbatim>\<open>np.deg2rad\<close>, \<^verbatim>\<open>math.atan2\<close>, \<^verbatim>\<open>math.degrees\<close>,
  \<^verbatim>\<open>np.linalg.norm\<close> of a pair of integers, and the value of the literal
  \<^verbatim>\<open>0.05\<close>. Comparison, absolute value, negation, \<^verbatim>\<open>int\<close>, \<^verbatim>\<open>np.rint\<close>
  and the literals 0, 1, 2, 3, 100 and 10000 are exact on floats and are written with
  the operations of the real numbers.
\<close>

record float_arith =
  fl_add :: "real \<Rightarrow> real \<Rightarrow> real"
  fl_sub :: "real \<Rightarrow> real \<Rightarrow> real"
  fl_mul :: "real \<Rightarrow> real \<Rightarrow> real"
  fl_div :: "real \<Rightarrow> real \<Rightarrow> real"
  fl_of_int :: "int \<Rightarrow> real"
  fl_cos :: "real \<Rightarrow> real"
  fl_sin :: "real \<Rightarrow> real"
  fl_deg2rad :: "real \<Rightarrow> real"
  fl_atan2 :: "real \<Rightarrow> real \<Rightarrow> real"
  fl_degrees :: "real \<Rightarrow> real"
  fl_norm :: "int \<times> int \<Rightarrow> real"
  fl_lit_005 :: real

definition zeros :: "nat \<times> nat \<Rightarrow> real ndarray" where
  "zeros sh = \<lparr>shape0 = fst sh, shape1 = snd sh, cells = (\<lambda>i j. 0)\<rparr>"

text \<open>Python's \<^verbatim>\<open>int(x)\<close> on a float truncates towards zero.\<close>

definition py_int :: "real \<Rightarrow> int" where
  "py_int x = (if 0 \<le> x then \<lfloor>x\<rfloor> else \<lceil>x\<rceil>)"

text \<open>
  An integer index \<open>k\<close> into an axis of length \<open>n\<close>: numpy accepts \<open>-n \<le> k < n\<close>, a
  negative index counting from the end, and raises IndexError otherwise.
\<close>

definition norm_index :: "nat \<Rightarrow> int \<Rightarrow> nat option" where
  "norm_index n k =
     (if 0 \<le> k \<and> k < int n then Some (nat k)
      else if - int n \<le> k \<and> k < 0 then Some (nat (k + int n))
      else None)"

definition setitem :: "'a ndarray \<Rightarrow> int \<Rightarrow> int \<Rightarrow> 'a \<Rightarrow> error + 'a ndarray" where
  "setitem a r c v =
     (case norm_index (shape0 a) r of
        None \<Rightarrow> Inl IndexError
      | Some i \<Rightarrow>
          (case norm_index (shape1 a) c of
             None \<Rightarrow> Inl IndexError
           | Some j \<Rightarrow> Inr (a\<lparr>cells := (\<lambda>i' j'. if i' = i \<and> j' = j then v else cells a i' j')\<rparr>)))"

definition bind_err :: "error + 'a \<Rightarrow> ('a \<Rightarrow> error + 'b) \<Rightarrow> error + 'b" where
  "bind_err m f = (case m of Inl e \<Rightarrow> Inl e | Inr x \<Rightarrow> f x)"

text \<open>
  A slice bound \<open>k\<close> on an axis of length \<open>n\<close>, as Python normalises it for step 1: a
  negative bound counts from the end, and every bound is clipped to \<open>0 .. n\<close>. A slice
  never raises; it may be empty.
\<close>

definition slice_bound :: "nat \<Rightarrow> int \<Rightarrow> nat" where
  "slice_bound n k = (if k < 0 then nat (max (k + int n) 0) else min (nat k) n)"

text \<open>
  A basic slice \<^verbatim>\<open>a[lo0:hi0, lo1:hi1]\<close> is a view: a window of the base array, given by
  its first row, its number of rows, its first column and its number of columns.
\<close>

record view =
  row0 :: nat
  nrows :: nat
  col0 :: nat
  ncols :: nat

definition whole :: "'a ndarray \<Rightarrow> view" where
  "whole a = \<lparr>row0 = 0, nrows = shape0 a, col0 = 0, ncols = shape1 a\<rparr>"

definition subview :: "view \<Rightarrow> int \<times> int \<Rightarrow> int \<times> int \<Rightarrow> view" where
  "subview v rs cs =
     \<lparr>row0 = row0 v + slice_bound (nrows v) (fst rs),
      nrows = slice_bound (nrows v) (snd rs) - slice_bound (nrows v) (fst rs),
      col0 = col0 v + slice_bound (ncols v) (fst cs),
      ncols = slice_bound (ncols v) (snd cs) - slice_bound (ncols v) (fst cs)\<rparr>"

definition in_view :: "view \<Rightarrow> nat \<Rightarrow> nat \<Rightarrow> bool" where
  "in_view v i j \<longleftrightarrow>
     row0 v \<le> i \<and> i < row0 v + nrows v \<and> col0 v \<le> j \<and> j < col0 v + ncols v"

text \<open>\<^verbatim>\<open>a[view] = x\<close> writes through the view into the base array.\<close>

definition fill_view :: "'a ndarray \<Rightarrow> view \<Rightarrow> 'a \<Rightarrow> 'a ndarray" where
  "fill_view a v x = a\<lparr>cells := (\<lambda>i j. if in_view v i j then x else cells a i j)\<rparr>"

definition read_view :: "'a ndarray \<Rightarrow> view \<Rightarrow> 'a ndarray" where
  "read_view a v =
     \<lparr>shape0 = nrows v, shape1 = ncols v, cells = (\<lambda>i j. cells a (row0 v + i) (col0 v + j))\<rparr>"

text \<open>
  \<^verbatim>\<open>t[m == x] = v\<close>: a boolean mask must have the shape of the array it indexes, or
  numpy raises IndexError.
\<close>

definition mask_assign :: "real ndarray \<Rightarrow> real ndarray \<Rightarrow> real \<Rightarrow> real \<Rightarrow> error + real ndarray" where
  "mask_assign t m x v =
     (if shape0 m = shape0 t \<and> shape1 m = shape1 t
      then Inr (t\<lparr>cells := (\<lambda>i j. if i < shape0 t \<and> j < shape1 t \<and> cells m i j = x
                                  then v else cells t i j)\<rparr>)
      else Inl IndexError)"

definition map_cells :: "('a \<Rightarrow> 'b) \<Rightarrow> 'a ndarray \<Rightarrow> 'b ndarray" where
  "map_cells f a = \<lparr>shape0 = shape0 a, shape1 = shape1 a, cells = (\<lambda>i j. f (cells a i j))\<rparr>"

text \<open>The cells of an array in row-major order, and the indices of the set cells.\<close>

definition flat :: "'a ndarray \<Rightarrow> 'a list" where
  "flat a = concat (map (\<lambda>i. map (\<lambda>j. cells a i j) [0..<shape1 a]) [0..<shape0 a])"

definition nonzero :: "bool ndarray \<Rightarrow> (nat \<times> nat) list" where
  "nonzero a =
     concat (map (\<lambda>i. map (\<lambda>j. (i, j)) (filter (\<lambda>j. cells a i j) [0..<shape1 a]))
                 [0..<shape0 a])"

text \<open>Python's \<^verbatim>\<open>np.rint\<close>: the nearest integer, a tie going to the even one.\<close>

definition rint :: "real \<Rightarrow> real" where
  "rint x =
     (let f = \<lfloor>x\<rfloor>; d = x - real_of_int f
      in if d < 1 / 2 then real_of_int f
         else if 1 / 2 < d then real_of_int (f + 1)
         else if even f then real_of_int f else real_of_int (f + 1))"

definition add_boundary :: "real ndarray \<Rightarrow> real \<Rightarrow> real ndarray" where
  "add_boundary mat v =
     \<lparr>shape0 = shape0 mat + 2, shape1 = shape1 mat + 2,
      cells = (\<lambda>i j. if 1 \<le> i \<and> i < shape0 mat + 1 \<and> 1 \<le> j \<and> j < shape1 mat + 1
                      then cells mat (i - 1) (j - 1) else 0 + v)\<rparr>"

definition remove_boundary :: "'a ndarray \<Rightarrow> int \<Rightarrow> 'a ndarray" where
  "remove_boundary mat v = read_view mat (subview (whole mat) (v, - v) (v, - v))"

subsection \<open>Grid morphology\<close>

text \<open>
  \<^verbatim>\<open>skimage.morphology.disk\<close> as the list of its offsets from the centre, and the two
  library dilations over it: \<^verbatim>\<open>cv2.dilate\<close> takes the maximum over the neighbourhood
  inside the array, \<^verbatim>\<open>binary_dilation\<close> tells whether a cell of it is set.
\<close>

definition disk :: "int \<Rightarrow> (int \<times> int) list" where
  "disk r =
     concat (map (\<lambda>di. map (\<lambda>dj. (di, dj)) (filter (\<lambda>dj. di * di + dj * dj \<le> r * r) [- r..r]))
                 [- r..r])"

definition neighbourhood :: "'a ndarray \<Rightarrow> int \<Rightarrow> nat \<Rightarrow> nat \<Rightarrow> 'a list" where
  "neighbourhood a r i j =
     map (\<lambda>d. cells a (nat (int i + fst d)) (nat (int j + snd d)))
         (filter (\<lambda>d. 0 \<le> int i + fst d \<and> int i + fst d < int (shape0 a)
                      \<and> 0 \<le> int j + snd d \<and> int j + snd d < int (shape1 a))
                 (disk r))"

definition cv2_dilate :: "real ndarray \<Rightarrow> int \<Rightarrow> real ndarray" where
  "cv2_dilate a r = a\<lparr>cells := (\<lambda>i j. fold max (neighbourhood a r i j) (cells a i j))\<rparr>"

definition binary_dilation :: "real ndarray \<Rightarrow> int \<Rightarrow> bool ndarray" where
  "binary_dilation a r =
     \<lparr>shape0 = shape0 a, shape1 = shape1 a,
      cells = (\<lambda>i j. list_ex (\<lambda>x. x \<noteq> 0) (neighbourhood a r i j))\<rparr>"

subsection \<open>Helpers of \<^verbatim>\<open>home_robot.utils.pose\<close>\<close>

text \<open>
  Modelled from the spec: \<^verbatim>\<open>pu.threshold_poses\<close> is not among the sources. The
  specification says that grid indices are clamped into the grid bounds: each coordinate
  is brought into \<open>0 .. shape - 1\<close>.
\<close>

definition threshold_poses :: "int \<times> int \<Rightarrow> nat \<times> nat \<Rightarrow> int \<times> int" where
  "threshold_poses coords shape =
     (min (max 0 (fst coords)) (int (fst shape) - 1),
      min (max 0 (snd coords)) (int (snd shape) - 1))"

text \<open>
  Modelled from the spec: \<^verbatim>\<open>pu.get_l2_distance\<close> is not among the sources. The
  specification calls it the true Euclidean displacement between the two poses.
\<close>

definition get_l2_distance :: "real \<Rightarrow> real \<Rightarrow> real \<Rightarrow> real \<Rightarrow> real" where
  "get_l2_distance x1 x2 y1 y2 = sqrt ((x1 - x2)\<^sup>2 + (y1 - y2)\<^sup>2)"

subsection \<open>Configuration and state\<close>

text \<open>The arguments of \<^verbatim>\<open>__init__\<close> that the planning core reads.\<close>

record planner_config =
  turn_angle :: real
  collision_threshold :: real
  step_size :: int
  start_obs_dilation_selem_radius :: int
  goal_dilation_selem_radius :: int
  map_size_cm :: int
  map_resolution :: int
  min_goal_distance_cm :: real
  min_obs_dilation_selem_radius :: int
  agent_cell_radius :: int

text \<open>
  The fields that \<^verbatim>\<open>reset\<close> sets and \<^verbatim>\<open>plan\<close> updates. The structuring element
  \<^verbatim>\<open>obs_dilation_selem\<close> is always the disk of \<open>curr_obs_dilation_selem_radius\<close> and
  is recomputed from it where it is used.
\<close>

record planner_state =
  collision_map :: "real ndarray"
  visited_map :: "real ndarray"
  col_width :: int
  last_pose :: "pose option"
  curr_pose :: pose
  last_action :: "DiscreteNavigationAction option"
  timestep :: int
  curr_obs_dilation_selem_radius :: int

definition map_shape :: "planner_config \<Rightarrow> int \<times> int" where
  "map_shape cfg =
     (map_size_cm cfg div map_resolution cfg, map_size_cm cfg div map_resolution cfg)"

text \<open>
  \<^verbatim>\<open>reset\<close>, on a planner built by \<^verbatim>\<open>__init__\<close>. The constructor raises
  ZeroDivisionError when it computes \<open>map_shape\<close> with a zero resolution, and
  \<^verbatim>\<open>np.zeros\<close> raises ValueError on a negative dimension.
\<close>

definition reset :: "float_arith \<Rightarrow> planner_config \<Rightarrow> error + planner_state" where
  "reset fl cfg =
     (if map_resolution cfg = 0 then Inl ZeroDivisionError
      else if fst (map_shape cfg) < 0 then Inl ValueError
      else Inr \<lparr>collision_map = zeros (nat (fst (map_shape cfg)), nat (snd (map_shape cfg))),
                visited_map = zeros (nat (fst (map_shape cfg)), nat (snd (map_shape cfg))),
                col_width = 1,
                last_pose = None,
                curr_pose = (fl_div fl (fl_div fl (fl_of_int fl (map_size_cm cfg)) 100) 2,
                             fl_div fl (fl_div fl (fl_of_int fl (map_size_cm cfg)) 100) 2, 0),
                last_action = None,
                timestep = 1,
                curr_obs_dilation_selem_radius = start_obs_dilation_selem_radius cfg\<rparr>)"

subsection \<open>The collision detector\<close>

text \<open>
  The first half of \<^verbatim>\<open>_check_collision\<close>: from the stored width and the two poses, the
  new stored width, and the length and the buffer of the footprint of this cycle.
\<close>

definition stall_update :: "float_arith \<Rightarrow> int \<Rightarrow> pose \<Rightarrow> pose \<Rightarrow> int \<times> int \<times> int" where
  "stall_update fl w p1 p2 =
     (case p1 of (x1, y1, t1) \<Rightarrow> case p2 of (x2, y2, t2) \<Rightarrow>
        if \<bar>fl_sub fl x1 x2\<bar> < fl_lit_005 fl \<and> \<bar>fl_sub fl y1 y2\<bar> < fl_lit_005 fl
        then (let w' = w + 2 in
              if w' = 7 then (min w' 5, 4, 3) else (min w' 5, 2, 4))
        else (1, 2, 4))"

text \<open>
  The cell \<open>[r, c]\<close> of iteration \<open>(i, j)\<close> of the painting loop, after
  \<^verbatim>\<open>threshold_poses\<close>.
\<close>

definition footprint_cell ::
  "float_arith \<Rightarrow> planner_config \<Rightarrow> nat \<times> nat \<Rightarrow> pose \<Rightarrow> int \<Rightarrow> int \<Rightarrow> int \<times> int
     \<Rightarrow> int \<times> int" where
  "footprint_cell fl cfg shape p1 width buf ij =
     (case p1 of (x1, y1, t1) \<Rightarrow> case ij of (i, j) \<Rightarrow>
        let wx = fl_add fl x1
                   (fl_mul fl (fl_lit_005 fl)
                      (fl_add fl
                         (fl_mul fl (fl_of_int fl (i + buf)) (fl_cos fl (fl_deg2rad fl t1)))
                         (fl_mul fl (fl_of_int fl (j - width div 2)) (fl_sin fl (fl_deg2rad fl t1)))));
            wy = fl_add fl y1
                   (fl_mul fl (fl_lit_005 fl)
                      (fl_sub fl
                         (fl_mul fl (fl_of_int fl (i + buf)) (fl_sin fl (fl_deg2rad fl t1)))
                         (fl_mul fl (fl_of_int fl (j - width div 2)) (fl_cos fl (fl_deg2rad fl t1)))));
            r = py_int (fl_div fl (fl_mul fl wy 100) (fl_of_int fl (map_resolution cfg)));
            c = py_int (fl_div fl (fl_mul fl wx 100) (fl_of_int fl (map_resolution cfg)))
        in threshold_poses (r, c) shape)"

text \<open>The iterations of the two nested \<^verbatim>\<open>range\<close> loops, in order.\<close>

definition footprint_iterations :: "int \<Rightarrow> int \<Rightarrow> (int \<times> int) list" where
  "footprint_iterations len width =
     concat (map (\<lambda>i. map (\<lambda>j. (i, j)) [0..width - 1]) [0..len - 1])"

text \<open>
  The painting loop. Dividing by a zero resolution gives an infinite or undefined numpy
  float, on which \<^verbatim>\<open>int\<close> raises.
\<close>

fun paint ::
  "float_arith \<Rightarrow> planner_config \<Rightarrow> pose \<Rightarrow> int \<Rightarrow> int \<Rightarrow> (int \<times> int) list \<Rightarrow> real ndarray
     \<Rightarrow> error + real ndarray" where
  "paint fl cfg p1 width buf [] m = Inr m"
| "paint fl cfg p1 width buf (ij # rest) m =
     (if map_resolution cfg = 0 then Inl OverflowError
      else case footprint_cell fl cfg (shape0 m, shape1 m) p1 width buf ij of (r, c) \<Rightarrow>
        (case setitem m r c 1 of
           Inl e \<Rightarrow> Inl e
         | Inr m' \<Rightarrow> paint fl cfg p1 width buf rest m'))"

text \<open>\<^verbatim>\<open>_check_collision\<close>. Unpacking a \<open>last_pose\<close> that is \<open>None\<close> raises TypeError.\<close>

definition check_collision ::
  "float_arith \<Rightarrow> planner_config \<Rightarrow> planner_state \<Rightarrow> error + planner_state" where
  "check_collision fl cfg s =
     (case last_pose s of
        None \<Rightarrow> Inl TypeError
      | Some p1 \<Rightarrow>
         (case stall_update fl (col_width s) p1 (curr_pose s) of (w, len, buf) \<Rightarrow>
            let s1 = s\<lparr>col_width := w\<rparr>;
                dist = get_l2_distance (fst p1) (fst (curr_pose s))
                                       (fst (snd p1)) (fst (snd (curr_pose s)))
            in if dist < collision_threshold cfg
               then (case paint fl cfg p1 w buf (footprint_iterations len w) (collision_map s1) of
                       Inl e \<Rightarrow> Inl e
                     | Inr m \<Rightarrow> Inr (s1\<lparr>collision_map := m\<rparr>))
               else Inr s1))"

subsection \<open>Collaborators that are not among the sources\<close>

text \<open>
  Modelled from the spec: \<^verbatim>\<open>FMMPlanner\<close> (fmm_planner.py) and
  \<^verbatim>\<open>pu.normalize_angle\<close> are not among the sources. The planner is parametrised by
  them. A solver is built from a traversability grid; \<open>fmm_find_nearest_to_multi_goal\<close>
  takes that grid and a goal mask, \<open>fmm_get_short_term_goal\<close> takes the grid, the seed
  mask, the timestep given to \<^verbatim>\<open>set_multi_goal\<close> and the agent's cell and returns the
  waypoint with the replan and stop flags, and \<open>fmm_dist\<close> gives the cells of the field
  solved from a seed mask, which has the shape of the grid.
\<close>

record collaborators =
  fmm_find_nearest_to_multi_goal :: "real ndarray \<Rightarrow> real ndarray \<Rightarrow> int \<times> int"
  fmm_get_short_term_goal ::
    "real ndarray \<Rightarrow> real ndarray \<Rightarrow> int \<Rightarrow> int \<times> int \<Rightarrow> real \<times> real \<times> bool \<times> bool"
  fmm_dist :: "real ndarray \<Rightarrow> real ndarray \<Rightarrow> nat \<Rightarrow> nat \<Rightarrow> real"
  normalize_angle :: "real \<Rightarrow> real"

text \<open>
  The exact values of \<^verbatim>\<open>math.atan2\<close>, \<^verbatim>\<open>math.degrees\<close> and
  \<^verbatim>\<open>np.linalg.norm\<close> of the difference of two cells. They are used by the exact
  arithmetic of the concrete inputs only.
\<close>

definition atan2 :: "real \<Rightarrow> real \<Rightarrow> real" where
  "atan2 y x =
     (if 0 < x then arctan (y / x)
      else if x < 0 \<and> 0 \<le> y then arctan (y / x) + pi
      else if x < 0 then arctan (y / x) - pi
      else if 0 < y then pi / 2
      else if y < 0 then - pi / 2
      else 0)"

definition degrees :: "real \<Rightarrow> real" where
  "degrees x = x * 180 / pi"

definition cell_distance :: "int \<times> int \<Rightarrow> int \<times> int \<Rightarrow> real" where
  "cell_distance a b =
     sqrt ((real_of_int (fst a - fst b))\<^sup>2 + (real_of_int (snd a - snd b))\<^sup>2)"

subsection \<open>The short-term goal resolver\<close>

text \<open>
  The traversability grid of \<^verbatim>\<open>_get_short_term_goal\<close>: the dilated obstacles inverted,
  the collision window forced to 0, the visited window forced to 1, the square around the
  agent forced to 1, and the boundary frame added.
\<close>

definition traversible_grid ::
  "float_arith \<Rightarrow> planner_config \<Rightarrow> planner_state \<Rightarrow> real ndarray \<Rightarrow> int \<times> int \<Rightarrow> int \<times> int \<times> int \<times> int
     \<Rightarrow> error + real ndarray" where
  "traversible_grid fl cfg s obstacle_map start planning_window =
     (case planning_window of (gx1, gx2, gy1, gy2) \<Rightarrow>
        let x2 = int (shape0 obstacle_map);
            y2 = int (shape1 obstacle_map);
            obstacles = read_view obstacle_map (subview (whole obstacle_map) (0, x2) (0, y2));
            dilated_obstacles = cv2_dilate obstacles (curr_obs_dilation_selem_radius s);
            traversible = map_cells (\<lambda>v. fl_sub fl 1 v) dilated_obstacles;
            collided = read_view (collision_map s)
                         (subview (subview (whole (collision_map s)) (gx1, gx2) (gy1, gy2))
                                  (0, x2) (0, y2));
            visited = read_view (visited_map s)
                        (subview (subview (whole (visited_map s)) (gx1, gx2) (gy1, gy2))
                                 (0, x2) (0, y2));
            agent_rad = agent_cell_radius cfg
        in bind_err (mask_assign traversible collided 1 0) (\<lambda>t1.
           bind_err (mask_assign t1 visited 1 1) (\<lambda>t2.
             Inr (add_boundary
                    (fill_view t2
                       (subview (whole t2)
                          (fst start - 0 - agent_rad, fst start - 0 + agent_rad + 1)
                          (snd start - 0 - agent_rad, snd start - 0 + agent_rad + 1))
                       1)
                    1))))"

text \<open>
  The closest-goal mask: the cells where the product of the goal mask and the field from
  the agent, zeros replaced by 10000 in both, is minimal, with the frame removed.
\<close>

definition closest_goal ::
  "float_arith \<Rightarrow> real ndarray \<Rightarrow> real ndarray \<Rightarrow> error + bool ndarray" where
  "closest_goal fl goal_map field =
     (let goal_map_filled = map_cells (\<lambda>v. if v = 0 then 10000 else v) goal_map;
          fmm_dist_filled = map_cells (\<lambda>v. if v = 0 then 10000 else v) field
      in if shape0 goal_map_filled = shape0 fmm_dist_filled \<and> shape1 goal_map_filled = shape1 fmm_dist_filled
         then (let prod = \<lparr>shape0 = shape0 goal_map_filled, shape1 = shape1 goal_map_filled,
                            cells = (\<lambda>i j. fl_mul fl (cells goal_map_filled i j)
                                                    (cells fmm_dist_filled i j))\<rparr>
               in case flat prod of
                    [] \<Rightarrow> Inl ValueError
                  | x # xs \<Rightarrow> Inr (remove_boundary (map_cells (\<lambda>v. v = fold min xs x) prod) 1))
         else Inl ValueError)"

text \<open>
  \<^verbatim>\<open>np.unravel_index(m.argmax(), m.shape)\<close> on a boolean array: the first set cell in
  row-major order, cell (0, 0) when none is set; an empty array raises ValueError.
\<close>

definition argmax_pt :: "bool ndarray \<Rightarrow> error + (nat \<times> nat)" where
  "argmax_pt m =
     (if shape0 m = 0 \<or> shape1 m = 0 then Inl ValueError
      else case nonzero m of [] \<Rightarrow> Inr (0, 0) | p # ps \<Rightarrow> Inr p)"

type_synonym resolved = "(int \<times> int) \<times> bool ndarray \<times> bool \<times> bool \<times> (nat \<times> nat)"

text \<open>
  \<^verbatim>\<open>_get_short_term_goal\<close>. The result is the waypoint, the closest-goal mask, the
  replan flag, the stop flag and the closest-goal cell.
\<close>

definition get_short_term_goal ::
  "float_arith \<Rightarrow> planner_config \<Rightarrow> collaborators \<Rightarrow> planner_state \<Rightarrow> real ndarray \<Rightarrow> real ndarray \<Rightarrow> int \<times> int
     \<Rightarrow> int \<times> int \<times> int \<times> int \<Rightarrow> bool \<Rightarrow> error + (resolved \<times> planner_state)" where
  "get_short_term_goal fl cfg env s obstacle_map goal_map0 start planning_window plan_to_dilated_goal =
     bind_err (traversible_grid fl cfg s obstacle_map start planning_window) (\<lambda>traversible.
       let goal_map = add_boundary goal_map0 0
       in bind_err
            (if plan_to_dilated_goal
             then Inr (map_cells (\<lambda>b. if b then 1 else 0)
                         (binary_dilation goal_map (goal_dilation_selem_radius cfg)), None)
             else (let navigable_goal = fmm_find_nearest_to_multi_goal env traversible goal_map
                   in bind_err (setitem (zeros (shape0 goal_map, shape1 goal_map))
                                        (fst navigable_goal) (snd navigable_goal) 1)
                        (\<lambda>navigable_goal_map. Inr (navigable_goal_map, Some navigable_goal))))
            (\<lambda>seeded. case seeded of (multi_goal, navigable) \<Rightarrow>
               let s' = s\<lparr>timestep := timestep s + 1\<rparr>;
                   state = (fst start - 0 + 1, snd start - 0 + 1)
               in case fmm_get_short_term_goal env traversible multi_goal (timestep s) state of
                    (stg_x, stg_y, replan, stop) \<Rightarrow>
                  let short_term_goal = (py_int (fl_sub fl (fl_add fl stg_x 0) 1),
                                         py_int (fl_sub fl (fl_add fl stg_y 0) 1))
                  in bind_err (setitem (zeros (shape0 goal_map, shape1 goal_map))
                                       (fst start) (snd start) 1) (\<lambda>curr_loc_map.
                     bind_err (closest_goal fl goal_map
                                 \<lparr>shape0 = shape0 traversible, shape1 = shape1 traversible,
                                  cells = fmm_dist env traversible curr_loc_map\<rparr>)
                       (\<lambda>closest_goal_map.
                     bind_err (argmax_pt closest_goal_map) (\<lambda>closest_goal_pt.
                       case navigable of
                         None \<Rightarrow>
                           Inr ((short_term_goal, closest_goal_map, replan, stop, closest_goal_pt), s')
                       | Some navigable_goal \<Rightarrow>
                           (let distance_to_goal =
                                  fl_norm fl (fst start - int (fst closest_goal_pt),
                                              snd start - int (snd closest_goal_pt));
                                distance_nav_to_goal =
                                  fl_norm fl (fst start - fst navigable_goal,
                                              snd start - snd navigable_goal);
                                distance_to_goal_cm =
                                  fl_mul fl distance_to_goal (fl_of_int fl (map_resolution cfg));
                                distance_nav_to_goal_cm =
                                  fl_mul fl distance_nav_to_goal (fl_of_int fl (map_resolution cfg))
                            in Inr ((short_term_goal, closest_goal_map,
                                     min_goal_distance_cm cfg < distance_nav_to_goal_cm,
                                     distance_to_goal_cm < min_goal_distance_cm cfg,
                                     closest_goal_pt), s')))))))"

subsection \<open>The planning cycle\<close>

type_synonym sensor_pose = "real \<times> real \<times> real \<times> real \<times> real \<times> real \<times> real"

text \<open>
  The first part of \<^verbatim>\<open>plan\<close>: the pose history, the agent's cell, the visited mark and
  the collision check. It returns the rounded obstacle map, the clamped cell and the
  planning window.
\<close>

definition plan_prepare ::
  "float_arith \<Rightarrow> planner_config \<Rightarrow> planner_state \<Rightarrow> real ndarray \<Rightarrow> sensor_pose
     \<Rightarrow> error + ((real ndarray \<times> (int \<times> int) \<times> (int \<times> int \<times> int \<times> int)) \<times> planner_state)" where
  "plan_prepare fl cfg s obstacle_map0 sp =
     (case sp of (start_x, start_y, start_o, gx1r, gx2r, gy1r, gy2r) \<Rightarrow>
        let s1 = s\<lparr>last_pose := Some (curr_pose s)\<rparr>;
            obstacle_map = map_cells rint obstacle_map0;
            gx1 = py_int gx1r; gx2 = py_int gx2r; gy1 = py_int gy1r; gy2 = py_int gy2r
        in if map_resolution cfg = 0 then Inl OverflowError
           else
             let start = threshold_poses
                           (py_int (fl_sub fl (fl_div fl (fl_mul fl start_y 100)
                                                         (fl_of_int fl (map_resolution cfg)))
                                              (fl_of_int fl gx1)),
                            py_int (fl_sub fl (fl_div fl (fl_mul fl start_x 100)
                                                         (fl_of_int fl (map_resolution cfg)))
                                              (fl_of_int fl gy1)))
                           (shape0 obstacle_map, shape1 obstacle_map);
                 s2 = s1\<lparr>curr_pose := (start_x, start_y, start_o)\<rparr>;
                 s3 = s2\<lparr>visited_map :=
                          fill_view (visited_map s2)
                            (subview (subview (whole (visited_map s2)) (gx1, gx2) (gy1, gy2))
                                     (fst start - 0, fst start + 1) (snd start - 0, snd start + 1))
                            1\<rparr>
             in bind_err (if last_action s3 = Some MOVE_FORWARD then check_collision fl cfg s3
                          else Inr s3)
                  (\<lambda>s4. Inr ((obstacle_map, start, (gx1, gx2, gy1, gy2)), s4)))"

text \<open>
  The second part: the resolver on the goal map and, when it asks to replan and not to
  stop, the cleared collision map, the reduced dilation and the resolver on the frontier
  map. It returns the result in force and the value of \<open>found_goal\<close> for the rest of
  the cycle.
\<close>

definition plan_resolve ::
  "float_arith \<Rightarrow> planner_config \<Rightarrow> collaborators \<Rightarrow> planner_state \<Rightarrow> real ndarray \<Rightarrow> real ndarray \<Rightarrow> real ndarray
     \<Rightarrow> int \<times> int \<Rightarrow> int \<times> int \<times> int \<times> int \<Rightarrow> bool \<Rightarrow> bool
     \<Rightarrow> error + (resolved \<times> bool \<times> planner_state)" where
  "plan_resolve fl cfg env s obstacle_map goal_map frontier_map start planning_window found_goal
                use_dilation_for_stg =
     bind_err (get_short_term_goal fl cfg env s obstacle_map goal_map start planning_window
                 use_dilation_for_stg)
       (\<lambda>first. case first of ((short_term_goal, closest_goal_map, replan, stop, goal_pt), s1) \<Rightarrow>
          if replan \<and> \<not> stop
          then (let s2 = s1\<lparr>collision_map := map_cells (\<lambda>v. fl_mul fl v 0) (collision_map s1)\<rparr>;
                    s3 = (if min_obs_dilation_selem_radius cfg < curr_obs_dilation_selem_radius s2
                          then s2\<lparr>curr_obs_dilation_selem_radius :=
                                    curr_obs_dilation_selem_radius s2 - 1\<rparr>
                          else s2)
                in if found_goal
                   then bind_err (get_short_term_goal fl cfg env s3 obstacle_map frontier_map start
                                    planning_window True)
                          (\<lambda>second. case second of (res, s4) \<Rightarrow> Inr (res, False, s4))
                   else Inr ((short_term_goal, closest_goal_map, replan, stop, goal_pt),
                             found_goal, s3))
          else Inr ((short_term_goal, closest_goal_map, replan, stop, goal_pt), found_goal, s1))"

text \<open>
  The last part: the bearings, the sampled orientation target and the action.
  \<^verbatim>\<open>np.random.randint(n)\<close> raises ValueError when \<open>n\<close> is 0 and otherwise returns an
  index below \<open>n\<close>, here the draw \<open>rnd\<close> modulo \<open>n\<close>.
\<close>

definition plan_act ::
  "float_arith \<Rightarrow> planner_config \<Rightarrow> collaborators \<Rightarrow> planner_state \<Rightarrow> int \<times> int \<Rightarrow> real \<Rightarrow> resolved \<Rightarrow> bool \<Rightarrow> nat
     \<Rightarrow> error + ((DiscreteNavigationAction \<times> bool ndarray) \<times> planner_state)" where
  "plan_act fl cfg env s start start_o res found_goal rnd =
     (case res of (short_term_goal, closest_goal_map, replan, stop, goal_pt) \<Rightarrow>
        case short_term_goal of (stg_x, stg_y) \<Rightarrow>
        let angle_st_goal = fl_degrees fl (fl_atan2 fl (fl_of_int fl (stg_x - fst start))
                                                       (fl_of_int fl (stg_y - snd start)));
            angle_agent = normalize_angle env start_o;
            relative_angle = normalize_angle env (fl_sub fl angle_agent angle_st_goal);
            goals = nonzero closest_goal_map
        in if length goals = 0 then Inl ValueError
           else
             case goals ! (rnd mod length goals) of (goal_x, goal_y) \<Rightarrow>
             let angle_goal = normalize_angle env
                                (fl_degrees fl
                                   (fl_atan2 fl (fl_of_int fl (int goal_x - fst start))
                                                (fl_of_int fl (int goal_y - snd start))));
                 relative_angle_goal = normalize_angle env (fl_sub fl angle_agent angle_goal);
                 action =
                   (if \<not> (found_goal \<and> stop)
                    then (if fl_div fl (turn_angle cfg) 2 < relative_angle then TURN_RIGHT
                          else if relative_angle < fl_div fl (- turn_angle cfg) 2 then TURN_LEFT
                          else MOVE_FORWARD)
                    else (if fl_div fl (fl_mul fl 2 (turn_angle cfg)) 3 < relative_angle_goal
                          then TURN_RIGHT
                          else if relative_angle_goal < fl_div fl (fl_mul fl (- 2) (turn_angle cfg)) 3
                          then TURN_LEFT
                          else STOP))
             in Inr ((action, closest_goal_map), s\<lparr>last_action := Some action\<rparr>))"

text \<open>\<^verbatim>\<open>plan\<close>: the three parts in sequence.\<close>

definition plan ::
  "float_arith \<Rightarrow> planner_config \<Rightarrow> collaborators \<Rightarrow> planner_state \<Rightarrow> real ndarray \<Rightarrow> real ndarray \<Rightarrow> real ndarray
     \<Rightarrow> sensor_pose \<Rightarrow> bool \<Rightarrow> bool \<Rightarrow> nat
     \<Rightarrow> error + ((DiscreteNavigationAction \<times> bool ndarray) \<times> planner_state)" where
  "plan fl cfg env s obstacle_map goal_map frontier_map sp found_goal use_dilation_for_stg rnd =
     bind_err (plan_prepare fl cfg s obstacle_map sp)
       (\<lambda>prepared. case prepared of ((obstacle_map', start, planning_window), s1) \<Rightarrow>
          bind_err (plan_resolve fl cfg env s1 obstacle_map' goal_map frontier_map start
                      planning_window found_goal use_dilation_for_stg)
            (\<lambda>resolved. case resolved of (res, found_goal', s2) \<Rightarrow>
               plan_act fl cfg env s2 start (fst (snd (snd sp))) res found_goal' rnd))"

subsection \<open>Episodes\<close>

text \<open>
  The arguments of one \<^verbatim>\<open>plan\<close> call, with the random draw of that cycle, and the
  control loop of an episode: the planner after a list of calls, stopping at the first
  call that raises.
\<close>

record plan_call =
  call_obstacle_map :: "real ndarray"
  call_goal_map :: "real ndarray"
  call_frontier_map :: "real ndarray"
  call_sensor_pose :: sensor_pose
  call_found_goal :: bool
  call_use_dilation_for_stg :: bool
  call_draw :: nat

definition plan_step ::
  "float_arith \<Rightarrow> planner_config \<Rightarrow> collaborators \<Rightarrow> planner_state \<Rightarrow> plan_call
     \<Rightarrow> error + ((DiscreteNavigationAction \<times> bool ndarray) \<times> planner_state)" where
  "plan_step fl cfg env s c =
     plan fl cfg env s (call_obstacle_map c) (call_goal_map c) (call_frontier_map c)
          (call_sensor_pose c) (call_found_goal c) (call_use_dilation_for_stg c) (call_draw c)"

fun episode ::
  "float_arith \<Rightarrow> planner_config \<Rightarrow> collaborators \<Rightarrow> planner_state \<Rightarrow> plan_call list \<Rightarrow> error + planner_state" where
  "episode fl cfg env s [] = Inr s"
| "episode fl cfg env s (c # cs) =
     (case plan_step fl cfg env s c of
        Inl e \<Rightarrow> Inl e
      | Inr r \<Rightarrow> episode fl cfg env (snd r) cs)"

subsection \<open>Predicates used by the properties\<close>

definition all_zero :: "real ndarray \<Rightarrow> bool" where
  "all_zero a \<longleftrightarrow> (\<forall>i<shape0 a. \<forall>j<shape1 a. cells a i j = 0)"

text \<open>
  The planner states of an episode: the state after \<^verbatim>\<open>reset\<close>, and every state
  that a returning \<^verbatim>\<open>plan\<close> or \<^verbatim>\<open>_check_collision\<close> leaves.
\<close>

inductive reachable ::
  "float_arith \<Rightarrow> planner_config \<Rightarrow> collaborators \<Rightarrow> planner_state \<Rightarrow> bool"
  for fl :: float_arith and cfg :: planner_config and env :: collaborators where
  after_reset: "reset fl cfg = Inr s \<Longrightarrow> reachable fl cfg env s"
| after_plan:
    "reachable fl cfg env s \<Longrightarrow> plan_step fl cfg env s c = Inr (r, s') \<Longrightarrow> reachable fl cfg env s'"
| after_check:
    "reachable fl cfg env s \<Longrightarrow> check_collision fl cfg s = Inr s' \<Longrightarrow> reachable fl cfg env s'"

subsection \<open>Concrete inputs\<close>

text \<open>
  The arithmetic that does not round. On the inputs below every intermediate value lies
  well inside a cell or a deadband, so that a rounding arithmetic takes the same branches.
\<close>

definition exact_arith :: float_arith where
  "exact_arith =
     \<lparr>fl_add = (\<lambda>a b. a + b), fl_sub = (\<lambda>a b. a - b), fl_mul = (\<lambda>a b. a * b),
      fl_div = (\<lambda>a b. a / b), fl_of_int = real_of_int, fl_cos = cos, fl_sin = sin,
      fl_deg2rad = (\<lambda>t. t * pi / 180), fl_atan2 = atan2, fl_degrees = degrees,
      fl_norm = (\<lambda>d. cell_distance d (0, 0)), fl_lit_005 = 5 / 100\<rparr>"

text \<open>
  A planner over a map of 20 cm at 5 cm per cell (a grid of 4 by 4 cells), and a planner
  state that has just moved forward from the pose (0.1, 0.1, 0) with stored width \<open>w\<close>
  and stands at pose \<open>p\<close>.
\<close>

definition cfg0 :: planner_config where
  "cfg0 = \<lparr>turn_angle = 30, collision_threshold = 1 / 5, step_size = 5,
           start_obs_dilation_selem_radius = 3, goal_dilation_selem_radius = 1,
           map_size_cm = 20, map_resolution = 5, min_goal_distance_cm = 6,
           min_obs_dilation_selem_radius = 1, agent_cell_radius = 1\<rparr>"

definition stall_state :: "int \<Rightarrow> pose \<Rightarrow> planner_state" where
  "stall_state w p =
     \<lparr>collision_map = zeros (4, 4), visited_map = zeros (4, 4), col_width = w,
      last_pose = Some (1 / 10, 1 / 10, 0), curr_pose = p,
      last_action = Some MOVE_FORWARD, timestep = 1, curr_obs_dilation_selem_radius = 3\<rparr>"

text \<open>
  A planner over a map of 100 cm at 5 cm per cell (a grid of 20 by 20 cells), and a state
  of it that has just moved forward from the pose (0.125, 0.125, 0) with stored width
  \<open>w\<close> and stands at pose \<open>p\<close>. From that pose and heading the footprint
  coordinates fall in the middle of their cells.
\<close>

definition cfg_wide :: planner_config where
  "cfg_wide = \<lparr>turn_angle = 30, collision_threshold = 1 / 5, step_size = 5,
               start_obs_dilation_selem_radius = 3, goal_dilation_selem_radius = 1,
               map_size_cm = 100, map_resolution = 5, min_goal_distance_cm = 6,
               min_obs_dilation_selem_radius = 1, agent_cell_radius = 1\<rparr>"

definition wide_state :: "int \<Rightarrow> pose \<Rightarrow> planner_state" where
  "wide_state w p =
     \<lparr>collision_map = zeros (20, 20), visited_map = zeros (20, 20), col_width = w,
      last_pose = Some (1 / 8, 1 / 8, 0), curr_pose = p,
      last_action = Some MOVE_FORWARD, timestep = 1, curr_obs_dilation_selem_radius = 3\<rparr>"

text \<open>
  A planner as \<open>cfg0\<close> with a minimum goal distance of 4 cm, its state after
  \<^verbatim>\<open>reset\<close>, a local window of 2 by 2 free cells at the origin of the map, a goal mask
  with the single cell (0, 1), an empty goal mask, and a pose at the origin with the
  window (0, 2, 0, 2).
\<close>

definition cfg1 :: planner_config where
  "cfg1 = \<lparr>turn_angle = 30, collision_threshold = 1 / 5, step_size = 5,
           start_obs_dilation_selem_radius = 3, goal_dilation_selem_radius = 1,
           map_size_cm = 20, map_resolution = 5, min_goal_distance_cm = 4,
           min_obs_dilation_selem_radius = 1, agent_cell_radius = 1\<rparr>"

definition init_state :: planner_state where
  "init_state =
     \<lparr>collision_map = zeros (4, 4), visited_map = zeros (4, 4), col_width = 1,
      last_pose = None, curr_pose = (1 / 10, 1 / 10, 0),
      last_action = None, timestep = 1, curr_obs_dilation_selem_radius = 3\<rparr>"

definition free_map :: "real ndarray" where
  "free_map = zeros (2, 2)"

definition goal_right :: "real ndarray" where
  "goal_right = \<lparr>shape0 = 2, shape1 = 2, cells = (\<lambda>i j. if i = 0 \<and> j = 1 then 1 else 0)\<rparr>"

definition no_goal :: "real ndarray" where
  "no_goal = zeros (2, 2)"

definition pose0 :: sensor_pose where
  "pose0 = (0, 0, 0, 0, 2, 0, 2)"

text \<open>
  A solver. It names the padded cell (1, 2), which is the cell (0, 1) of \<open>goal_right\<close>,
  as the nearest navigable goal cell. When the agent's padded cell (1, 1) is a seed it
  returns that cell as the waypoint, with no replanning and stop, and otherwise the
  waypoint (1, 2) with neither flag. Its field is the Manhattan distance from the corner
  of the padded grid, where the source seeds the field for the agent at cell (0, 0). The
  angle normaliser is the identity, which is right on the angles that occur, all 0.
\<close>

definition env0 :: collaborators where
  "env0 = \<lparr>fmm_find_nearest_to_multi_goal = (\<lambda>t g. (1, 2)),
           fmm_get_short_term_goal =
             (\<lambda>t g ts st. if cells g 1 1 = 1 then (1, 1, False, True) else (1, 2, False, False)),
           fmm_dist = (\<lambda>t seed i j. real (i + j)),
           normalize_angle = (\<lambda>a. a)\<rparr>"

text \<open>A call in precise mode with the goal found, towards \<open>goal_right\<close>.\<close>

definition call_fallback :: plan_call where
  "call_fallback =
     \<lparr>call_obstacle_map = free_map, call_goal_map = goal_right, call_frontier_map = goal_right,
      call_sensor_pose = pose0, call_found_goal = True, call_use_dilation_for_stg = False,
      call_draw = 0\<rparr>"

text \<open>
  A window of 2 by 2 cells that are all obstacles, and a planner state after
  \<^verbatim>\<open>reset\<close> whose collision map already marks cell (0, 0).
\<close>

definition wall_map :: "real ndarray" where
  "wall_map = \<lparr>shape0 = 2, shape1 = 2, cells = (\<lambda>i j. 1)\<rparr>"

definition blocked_state :: planner_state where
  "blocked_state =
     \<lparr>collision_map = \<lparr>shape0 = 4, shape1 = 4, cells = (\<lambda>i j. if i = 0 \<and> j = 0 then 1 else 0)\<rparr>,
      visited_map = zeros (4, 4), col_width = 1,
      last_pose = None, curr_pose = (1 / 10, 1 / 10, 0),
      last_action = None, timestep = 1, curr_obs_dilation_selem_radius = 3\<rparr>"

section \<open>Properties\<close>

subsection \<open>Auxiliary facts\<close>

lemma bind_err_Inr: "bind_err m f = Inr y \<longleftrightarrow> (\<exists>x. m = Inr x \<and> f x = Inr y)"
  by (cases m) (simp_all add: bind_err_def)

lemma bind_err_Inl: "bind_err m f = Inl e \<longleftrightarrow> (m = Inl e \<or> (\<exists>x. m = Inr x \<and> f x = Inl e))"
  by (cases m) (simp_all add: bind_err_def)

lemma setitem_shape: "setitem a r c v = Inr a' \<Longrightarrow> shape0 a' = shape0 a \<and> shape1 a' = shape1 a"
  by (auto simp: setitem_def split: option.splits)

lemma norm_index_in_range: "0 \<le> k \<Longrightarrow> k < int n \<Longrightarrow> norm_index n k = Some (nat k)"
  by (simp add: norm_index_def)

lemma setitem_in_range:
  "0 \<le> r \<Longrightarrow> r < int (shape0 a) \<Longrightarrow> 0 \<le> c \<Longrightarrow> c < int (shape1 a) \<Longrightarrow> \<exists>a'. setitem a r c v = Inr a'"
  by (simp add: setitem_def norm_index_in_range)

lemma threshold_poses_bounds:
  assumes "0 < fst shape" "0 < snd shape"
  shows "0 \<le> fst (threshold_poses rc shape) \<and> fst (threshold_poses rc shape) < int (fst shape)
       \<and> 0 \<le> snd (threshold_poses rc shape) \<and> snd (threshold_poses rc shape) < int (snd shape)"
  using assms by (auto simp: threshold_poses_def)

lemma footprint_cell_bounds:
  assumes "0 < h" "0 < w"
  shows "0 \<le> fst (footprint_cell fl cfg (h, w) p1 width buf ij) \<and> fst (footprint_cell fl cfg (h, w) p1 width buf ij) < int h
       \<and> 0 \<le> snd (footprint_cell fl cfg (h, w) p1 width buf ij) \<and> snd (footprint_cell fl cfg (h, w) p1 width buf ij) < int w"
proof -
  obtain x1 y1 t1 where p: "p1 = (x1, y1, t1)" by (cases p1) auto
  obtain i j where ij: "ij = (i, j)" by (cases ij) auto
  show ?thesis
    unfolding footprint_cell_def p ij Let_def prod.case
    using threshold_poses_bounds[of "(h, w)"] assms by simp
qed

lemma paint_ok:
  assumes "map_resolution cfg \<noteq> 0" "0 < shape0 m" "0 < shape1 m"
  shows "\<exists>m'. paint fl cfg p1 width buf ijs m = Inr m' \<and> shape0 m' = shape0 m \<and> shape1 m' = shape1 m"
  using assms
proof (induction ijs arbitrary: m)
  case Nil
  then show ?case by simp
next
  case (Cons ij ijs)
  obtain r c where rc: "footprint_cell fl cfg (shape0 m, shape1 m) p1 width buf ij = (r, c)"
    by (cases "footprint_cell fl cfg (shape0 m, shape1 m) p1 width buf ij") auto
  from footprint_cell_bounds[OF Cons.prems(2,3), of fl cfg p1 width buf ij] rc
  have b: "0 \<le> r" "r < int (shape0 m)" "0 \<le> c" "c < int (shape1 m)" by simp_all
  from setitem_in_range[OF b] obtain m1 where m1: "setitem m r c 1 = Inr m1" by blast
  from setitem_shape[OF m1] have sh: "shape0 m1 = shape0 m" "shape1 m1 = shape1 m" by simp_all
  from Cons.IH[of m1] Cons.prems sh
  obtain m' where "paint fl cfg p1 width buf ijs m1 = Inr m'" "shape0 m' = shape0 m" "shape1 m' = shape1 m"
    by auto
  then show ?case using Cons.prems(1) rc m1 by simp
qed

lemma paint_not_IndexError:
  assumes "0 < shape0 m" "0 < shape1 m"
  shows "paint fl cfg p1 width buf ijs m \<noteq> Inl IndexError"
proof (cases "map_resolution cfg = 0")
  case True
  then show ?thesis by (cases ijs) simp_all
next
  case False
  from paint_ok[OF False assms] show ?thesis by (metis Inl_Inr_False)
qed

lemma check_collision_width:
  assumes "last_pose s = Some (x1, y1, t1)" and "curr_pose s = (x2, y2, t2)"
    and "check_collision fl cfg s = Inr s'"
  shows "col_width s' = (if \<bar>fl_sub fl x1 x2\<bar> < fl_lit_005 fl \<and> \<bar>fl_sub fl y1 y2\<bar> < fl_lit_005 fl then min (col_width s + 2) 5 else 1)"
  using assms
  by (auto simp: check_collision_def stall_update_def Let_def split: if_splits sum.splits)

lemma check_collision_frame:
  assumes "check_collision fl cfg s = Inr s'"
  shows "visited_map s' = visited_map s \<and> last_pose s' = last_pose s \<and> curr_pose s' = curr_pose s
       \<and> last_action s' = last_action s \<and> timestep s' = timestep s
       \<and> curr_obs_dilation_selem_radius s' = curr_obs_dilation_selem_radius s"
  using assms
  by (auto simp: check_collision_def Let_def split: if_splits sum.splits option.splits prod.splits)

lemma paint_shape:
  "paint fl cfg p1 width buf ijs m = Inr m' \<Longrightarrow> shape0 m' = shape0 m \<and> shape1 m' = shape1 m"
proof (induction ijs arbitrary: m)
  case Nil
  then show ?case by simp
next
  case (Cons ij ijs)
  then show ?case
    by (auto split: if_splits prod.splits sum.splits dest!: setitem_shape)
qed

lemma check_collision_shape:
  assumes "check_collision fl cfg s = Inr s'"
  shows "shape0 (collision_map s') = shape0 (collision_map s) \<and> shape1 (collision_map s') = shape1 (collision_map s)"
  using assms
  by (auto simp: check_collision_def Let_def split: if_splits sum.splits option.splits prod.splits dest!: paint_shape)

lemma check_collision_ok:
  assumes "last_pose s = Some p1" "map_resolution cfg \<noteq> 0"
    "0 < shape0 (collision_map s)" "0 < shape1 (collision_map s)"
  shows "\<exists>s'. check_collision fl cfg s = Inr s'"
proof -
  obtain w len buf where su: "stall_update fl (col_width s) p1 (curr_pose s) = (w, len, buf)"
    by (cases "stall_update fl (col_width s) p1 (curr_pose s)") auto
  from paint_ok[OF assms(2), where m = "collision_map s" and fl = fl and ?p1.0 = p1 and width = w and buf = buf
      and ijs = "footprint_iterations len w"] assms(3,4)
  obtain m where "paint fl cfg p1 w buf (footprint_iterations len w) (collision_map s) = Inr m" by blast
  then show ?thesis using assms(1) su
    by (simp add: check_collision_def Let_def)
qed

lemma check_collision_not_IndexError:
  assumes "0 < shape0 (collision_map s)" "0 < shape1 (collision_map s)"
  shows "check_collision fl cfg s \<noteq> Inl IndexError"
  using paint_not_IndexError[OF assms]
  by (auto simp: check_collision_def Let_def split: if_splits sum.splits option.splits prod.splits)

lemma setitem_cells:
  assumes "0 \<le> r" "r < int (shape0 a)" "0 \<le> c" "c < int (shape1 a)"
  shows "setitem a r c v = Inr (a\<lparr>cells := (\<lambda>i j. if i = nat r \<and> j = nat c then v else cells a i j)\<rparr>)"
  using assms by (simp add: setitem_def norm_index_in_range)

lemma paint_cells:
  assumes "0 < shape0 m" "0 < shape1 m" "paint fl cfg p1 width buf ijs m = Inr m'"
  shows "cells m' i j =
           (if \<exists>ij\<in>set ijs. footprint_cell fl cfg (shape0 m, shape1 m) p1 width buf ij = (int i, int j)
            then 1 else cells m i j)"
  using assms
proof (induction ijs arbitrary: m)
  case Nil
  then show ?case by simp
next
  case (Cons ij ijs)
  obtain r c where rc: "footprint_cell fl cfg (shape0 m, shape1 m) p1 width buf ij = (r, c)"
    by (cases "footprint_cell fl cfg (shape0 m, shape1 m) p1 width buf ij") auto
  from footprint_cell_bounds[OF Cons.prems(1,2), of fl cfg p1 width buf ij] rc
  have b: "0 \<le> r" "r < int (shape0 m)" "0 \<le> c" "c < int (shape1 m)" by simp_all
  let ?m1 = "m\<lparr>cells := (\<lambda>i j. if i = nat r \<and> j = nat c then 1 else cells m i j)\<rparr>"
  have m1: "setitem m r c 1 = Inr ?m1" by (rule setitem_cells[OF b])
  from Cons.prems(3) rc m1 have rest: "paint fl cfg p1 width buf ijs ?m1 = Inr m'"
    by (simp split: if_splits)
  have sh: "0 < shape0 ?m1" "0 < shape1 ?m1" using Cons.prems(1,2) by simp_all
  from Cons.IH[OF sh rest]
  have ih: "cells m' i j =
           (if \<exists>ij\<in>set ijs. footprint_cell fl cfg (shape0 m, shape1 m) p1 width buf ij = (int i, int j)
            then 1 else cells ?m1 i j)" by simp
  have eq: "(r, c) = (int i, int j) \<longleftrightarrow> i = nat r \<and> j = nat c" using b by auto
  show ?case using ih rc eq by auto
qed

lemma footprint_iterations_set:
  "set (footprint_iterations len width) = {0..len - 1} \<times> {0..width - 1}"
  by (auto simp: footprint_iterations_def)

lemma wide_cell:
  "footprint_cell exact_arith cfg_wide (20, 20) (1 / 8, 1 / 8, 0) width buf (i, j)
     = threshold_poses (py_int (5 / 2 - real_of_int (j - width div 2)),
                        py_int (5 / 2 + real_of_int (i + buf))) (20, 20)"
  by (simp add: footprint_cell_def exact_arith_def cfg_wide_def Let_def algebra_simps)

lemma upto_small: "{0..(1::int)} = {0, 1}" "{0..(2::int)} = {0, 1, 2}" "{0..(3::int)} = {0, 1, 2, 3}"
  "{0..(4::int)} = {0, 1, 2, 3, 4}" "{0..(0::int)} = {0}"
  by auto

subsection \<open>Reset\<close>

text \<open>
  Claim C3. After \<^verbatim>\<open>reset\<close> the collision map and the visited map are entirely zero,
  the footprint-width counter is 1, the cycle counter is 1, the obstacle-dilation radius has
  its configured initial value, and the pose history is cleared: there is no last pose, and
  the current pose is the centre of the map with heading 0. The reset of a planner whose
  resolution is not zero and whose map dimension is not negative returns.
\<close>

theorem reset_postcondition:
  assumes "map_resolution cfg \<noteq> 0" and "0 \<le> map_size_cm cfg div map_resolution cfg"
  shows "\<exists>s. reset fl cfg = Inr s
           \<and> all_zero (collision_map s) \<and> all_zero (visited_map s)
           \<and> shape0 (collision_map s) = nat (map_size_cm cfg div map_resolution cfg)
           \<and> shape1 (collision_map s) = nat (map_size_cm cfg div map_resolution cfg)
           \<and> shape0 (visited_map s) = nat (map_size_cm cfg div map_resolution cfg)
           \<and> shape1 (visited_map s) = nat (map_size_cm cfg div map_resolution cfg)
           \<and> col_width s = 1 \<and> timestep s = 1
           \<and> curr_obs_dilation_selem_radius s = start_obs_dilation_selem_radius cfg
           \<and> last_pose s = None
           \<and> curr_pose s = (fl_div fl (fl_div fl (fl_of_int fl (map_size_cm cfg)) 100) 2,
                           fl_div fl (fl_div fl (fl_of_int fl (map_size_cm cfg)) 100) 2, 0)
           \<and> last_action s = None"
  using assms by (simp add: reset_def map_shape_def all_zero_def zeros_def)

theorem reset_postcondition_witness:
  "map_resolution cfg0 \<noteq> 0 \<and> 0 \<le> map_size_cm cfg0 div map_resolution cfg0
   \<and> (\<exists>s. reset exact_arith cfg0 = Inr s \<and> all_zero (collision_map s) \<and> shape0 (collision_map s) = 4
            \<and> col_width s = 1 \<and> timestep s = 1 \<and> curr_obs_dilation_selem_radius s = 3 \<and> last_pose s = None)"
proof -
  have a: "map_resolution cfg0 \<noteq> 0" by (simp add: cfg0_def)
  have b: "0 \<le> map_size_cm cfg0 div map_resolution cfg0" by (simp add: cfg0_def)
  from reset_postcondition[OF a b] obtain s where
    "reset exact_arith cfg0 = Inr s" "all_zero (collision_map s)"
    "shape0 (collision_map s) = nat (map_size_cm cfg0 div map_resolution cfg0)"
    "col_width s = 1" "timestep s = 1"
    "curr_obs_dilation_selem_radius s = start_obs_dilation_selem_radius cfg0" "last_pose s = None"
    by blast
  moreover have "nat (map_size_cm cfg0 div map_resolution cfg0) = 4" "start_obs_dilation_selem_radius cfg0 = 3"
    by (simp_all add: cfg0_def)
  ultimately show ?thesis using a b by auto
qed

subsection \<open>The collision detector\<close>

text \<open>
  Claim C5. A stalled forward move (both axis displacements below 0.05) stores the counter
  plus 2, clamped to at most 5: from 1 it stores 3, from 3 it stores 5, from 5 it stores 5
  again. A move that is not stalled stores 1. On a collision the cells set to 1 in the
  collision map are exactly the cells of the iterations \<open>(i, j)\<close> with \<open>i\<close> below
  the length and \<open>j\<close> below the stored width, every other cell keeping its value; the
  length is 4 and the offset 3 when the value before the clamp is exactly 7, that is on
  every stall from a stored 5, and the length is 2 and the offset 4 otherwise.
\<close>

theorem stall_counter_progression:
  assumes "last_pose s = Some (x1, y1, t1)" and "curr_pose s = (x2, y2, t2)"
    and "check_collision fl cfg s = Inr s'"
    and "0 < shape0 (collision_map s)" and "0 < shape1 (collision_map s)"
  shows "(\<bar>fl_sub fl x1 x2\<bar> < fl_lit_005 fl \<and> \<bar>fl_sub fl y1 y2\<bar> < fl_lit_005 fl \<longrightarrow>
            col_width s' = min (col_width s + 2) 5
          \<and> (col_width s = 1 \<longrightarrow> col_width s' = 3)
          \<and> (col_width s = 3 \<longrightarrow> col_width s' = 5)
          \<and> (col_width s = 5 \<longrightarrow> col_width s' = 5)
          \<and> (get_l2_distance x1 x2 y1 y2 < collision_threshold cfg \<longrightarrow>
               (\<forall>r c. cells (collision_map s') r c =
                  (if \<exists>i\<in>{0..(if col_width s + 2 = 7 then 4 else 2) - 1}.
                        \<exists>j\<in>{0..col_width s' - 1}.
                          footprint_cell fl cfg (shape0 (collision_map s), shape1 (collision_map s))
                            (x1, y1, t1) (col_width s') (if col_width s + 2 = 7 then 3 else 4) (i, j)
                          = (int r, int c)
                   then 1 else cells (collision_map s) r c))))
       \<and> (\<not> (\<bar>fl_sub fl x1 x2\<bar> < fl_lit_005 fl \<and> \<bar>fl_sub fl y1 y2\<bar> < fl_lit_005 fl) \<longrightarrow>
            col_width s' = 1
          \<and> (get_l2_distance x1 x2 y1 y2 < collision_threshold cfg \<longrightarrow>
               (\<forall>r c. cells (collision_map s') r c =
                  (if \<exists>i\<in>{0..1}. \<exists>j\<in>{0..0}.
                          footprint_cell fl cfg (shape0 (collision_map s), shape1 (collision_map s))
                            (x1, y1, t1) 1 4 (i, j)
                          = (int r, int c)
                   then 1 else cells (collision_map s) r c))))"
proof -
  let ?st = "\<bar>fl_sub fl x1 x2\<bar> < fl_lit_005 fl \<and> \<bar>fl_sub fl y1 y2\<bar> < fl_lit_005 fl"
  let ?w = "if ?st then min (col_width s + 2) 5 else 1"
  let ?len = "if ?st \<and> col_width s + 2 = 7 then 4 else (2 :: int)"
  let ?buf = "if ?st \<and> col_width s + 2 = 7 then 3 else (4 :: int)"
  have su: "stall_update fl (col_width s) (x1, y1, t1) (x2, y2, t2) = (?w, ?len, ?buf)"
    by (simp add: stall_update_def Let_def)
  from assms(1-3) su have w: "col_width s' = ?w"
    by (auto simp: check_collision_def Let_def split: if_splits sum.splits)
  have painted: "cells (collision_map s') r c =
      (if \<exists>ij\<in>set (footprint_iterations ?len ?w).
            footprint_cell fl cfg (shape0 (collision_map s), shape1 (collision_map s))
              (x1, y1, t1) ?w ?buf ij = (int r, int c)
       then 1 else cells (collision_map s) r c)"
    if d: "get_l2_distance x1 x2 y1 y2 < collision_threshold cfg" for r c
  proof -
    from assms(1-3) su d
    have p: "paint fl cfg (x1, y1, t1) ?w ?buf (footprint_iterations ?len ?w) (collision_map s)
               = Inr (collision_map s')"
      by (auto simp: check_collision_def Let_def split: if_splits sum.splits)
    from paint_cells[OF assms(4,5) p] show ?thesis .
  qed
  have A: "?st \<Longrightarrow> col_width s' = min (col_width s + 2) 5
          \<and> (col_width s = 1 \<longrightarrow> col_width s' = 3)
          \<and> (col_width s = 3 \<longrightarrow> col_width s' = 5)
          \<and> (col_width s = 5 \<longrightarrow> col_width s' = 5)
          \<and> (get_l2_distance x1 x2 y1 y2 < collision_threshold cfg \<longrightarrow>
               (\<forall>r c. cells (collision_map s') r c =
                  (if \<exists>i\<in>{0..(if col_width s + 2 = 7 then 4 else 2) - 1}.
                        \<exists>j\<in>{0..col_width s' - 1}.
                          footprint_cell fl cfg (shape0 (collision_map s), shape1 (collision_map s))
                            (x1, y1, t1) (col_width s') (if col_width s + 2 = 7 then 3 else 4) (i, j)
                          = (int r, int c)
                   then 1 else cells (collision_map s) r c)))"
  proof -
    assume st: ?st
    from st w have w': "col_width s' = min (col_width s + 2) 5" by simp
    have "cells (collision_map s') r c =
                  (if \<exists>i\<in>{0..(if col_width s + 2 = 7 then 4 else 2) - 1}.
                        \<exists>j\<in>{0..col_width s' - 1}.
                          footprint_cell fl cfg (shape0 (collision_map s), shape1 (collision_map s))
                            (x1, y1, t1) (col_width s') (if col_width s + 2 = 7 then 3 else 4) (i, j)
                          = (int r, int c)
                   then 1 else cells (collision_map s) r c)"
      if d: "get_l2_distance x1 x2 y1 y2 < collision_threshold cfg" for r c
      using painted[OF d, of r c] st w'
      by (simp add: footprint_iterations_set)
    with w' show ?thesis by auto
  qed
  have B: "\<not> ?st \<Longrightarrow> col_width s' = 1
          \<and> (get_l2_distance x1 x2 y1 y2 < collision_threshold cfg \<longrightarrow>
               (\<forall>r c. cells (collision_map s') r c =
                  (if \<exists>i\<in>{0..1}. \<exists>j\<in>{0..0}.
                          footprint_cell fl cfg (shape0 (collision_map s), shape1 (collision_map s))
                            (x1, y1, t1) 1 4 (i, j)
                          = (int r, int c)
                   then 1 else cells (collision_map s) r c)))"
  proof -
    assume nst: "\<not> ?st"
    from nst w have w': "col_width s' = 1" by (simp only: if_False)
    have "cells (collision_map s') r c =
                  (if \<exists>i\<in>{0..1}. \<exists>j\<in>{0..0}.
                          footprint_cell fl cfg (shape0 (collision_map s), shape1 (collision_map s))
                            (x1, y1, t1) 1 4 (i, j)
                          = (int r, int c)
                   then 1 else cells (collision_map s) r c)"
      if d: "get_l2_distance x1 x2 y1 y2 < collision_threshold cfg" for r c
    proof -
      from nst have l: "?len = 2" and b: "?buf = 4" and ww: "?w = 1" by auto
      from painted[OF d, of r c] show ?thesis
        unfolding l b ww by (simp add: footprint_iterations_set)
    qed
    with w' show ?thesis by auto
  qed
  from A B show ?thesis by blast
qed

theorem stall_counter_progression_witness:
  "\<exists>s1 s2 s3 s4 s5.
      check_collision exact_arith cfg_wide (wide_state 1 (1 / 8, 1 / 8, 0)) = Inr s1 \<and> col_width s1 = 3
    \<and> check_collision exact_arith cfg_wide s1 = Inr s2 \<and> col_width s2 = 5
    \<and> cells (collision_map s2) 2 6 = 1 \<and> cells (collision_map s2) 2 5 = 0
    \<and> cells (collision_map s2) 2 8 = 0
    \<and> check_collision exact_arith cfg_wide s2 = Inr s3 \<and> col_width s3 = 5
    \<and> cells (collision_map s3) 2 5 = 1 \<and> cells (collision_map s3) 2 8 = 1
    \<and> cells (collision_map s3) 2 9 = 0
    \<and> check_collision exact_arith cfg_wide s3 = Inr s4 \<and> col_width s4 = 5
    \<and> check_collision exact_arith cfg_wide (s4\<lparr>curr_pose := (9 / 8, 1 / 8, 0)\<rparr>) = Inr s5
    \<and> col_width s5 = 1"
proof -
  let ?p = "(1 / 8, 1 / 8, 0) :: pose"
  let ?s0 = "wide_state 1 ?p"
  have res: "map_resolution cfg_wide \<noteq> 0" by (simp add: cfg_wide_def)
  have d: "get_l2_distance (1 / 8) (1 / 8) (1 / 8) (1 / 8) < collision_threshold cfg_wide"
    by (simp add: get_l2_distance_def cfg_wide_def)
  have st: "\<bar>fl_sub exact_arith (1 / 8) (1 / 8)\<bar> < fl_lit_005 exact_arith
          \<and> \<bar>fl_sub exact_arith (1 / 8) (1 / 8)\<bar> < fl_lit_005 exact_arith"
    by (simp add: exact_arith_def)
  have nst: "\<not> (\<bar>fl_sub exact_arith (1 / 8) (9 / 8)\<bar> < fl_lit_005 exact_arith
          \<and> \<bar>fl_sub exact_arith (1 / 8) (1 / 8)\<bar> < fl_lit_005 exact_arith)"
    by (simp add: exact_arith_def)
  have p0: "last_pose ?s0 = Some ?p" "curr_pose ?s0 = ?p" "col_width ?s0 = 1"
    "shape0 (collision_map ?s0) = 20" "shape1 (collision_map ?s0) = 20"
    and z0: "\<And>r c. cells (collision_map ?s0) r c = 0"
    by (simp_all add: wide_state_def zeros_def)
  have q0: "0 < shape0 (collision_map ?s0)" "0 < shape1 (collision_map ?s0)" using p0 by simp_all
  from check_collision_ok[OF p0(1) res q0] obtain s1 where
    c1: "check_collision exact_arith cfg_wide ?s0 = Inr s1" by blast
  note t1 = stall_counter_progression[OF p0(1,2) c1 q0]
  from t1 st p0(3) have w1: "col_width s1 = 3" by simp
  from t1 st d w1 p0 z0
  have m1: "cells (collision_map s1) 2 5 = 0" "cells (collision_map s1) 2 8 = 0"
    "cells (collision_map s1) 2 9 = 0"
    by (simp_all add: wide_cell upto_small threshold_poses_def py_int_def)
  from check_collision_frame[OF c1] check_collision_shape[OF c1] p0
  have p1: "last_pose s1 = Some ?p" "curr_pose s1 = ?p"
    "shape0 (collision_map s1) = 20" "shape1 (collision_map s1) = 20" by simp_all
  have q1: "0 < shape0 (collision_map s1)" "0 < shape1 (collision_map s1)" using p1 by simp_all
  from check_collision_ok[OF p1(1) res q1] obtain s2 where
    c2: "check_collision exact_arith cfg_wide s1 = Inr s2" by blast
  note t2 = stall_counter_progression[OF p1(1,2) c2 q1]
  from t2 st w1 have w2: "col_width s2 = 5" by simp
  from t2 st d w1 w2 p1 m1
  have m2: "cells (collision_map s2) 2 6 = 1" "cells (collision_map s2) 2 5 = 0"
    "cells (collision_map s2) 2 8 = 0" "cells (collision_map s2) 2 9 = 0"
    by (simp_all add: wide_cell upto_small threshold_poses_def py_int_def)
  from check_collision_frame[OF c2] check_collision_shape[OF c2] p1
  have p2: "last_pose s2 = Some ?p" "curr_pose s2 = ?p"
    "shape0 (collision_map s2) = 20" "shape1 (collision_map s2) = 20" by simp_all
  have q2: "0 < shape0 (collision_map s2)" "0 < shape1 (collision_map s2)" using p2 by simp_all
  from check_collision_ok[OF p2(1) res q2] obtain s3 where
    c3: "check_collision exact_arith cfg_wide s2 = Inr s3" by blast
  note t3 = stall_counter_progression[OF p2(1,2) c3 q2]
  from t3 st w2 have w3: "col_width s3 = 5" by simp
  from t3 st d w2 w3 p2 m2
  have m3: "cells (collision_map s3) 2 5 = 1" "cells (collision_map s3) 2 8 = 1"
    "cells (collision_map s3) 2 9 = 0"
    by (simp_all add: wide_cell upto_small threshold_poses_def py_int_def)
  from check_collision_frame[OF c3] check_collision_shape[OF c3] p2
  have p3: "last_pose s3 = Some ?p" "curr_pose s3 = ?p"
    "shape0 (collision_map s3) = 20" "shape1 (collision_map s3) = 20" by simp_all
  have q3: "0 < shape0 (collision_map s3)" "0 < shape1 (collision_map s3)" using p3 by simp_all
  from check_collision_ok[OF p3(1) res q3] obtain s4 where
    c4: "check_collision exact_arith cfg_wide s3 = Inr s4" by blast
  note t4 = stall_counter_progression[OF p3(1,2) c4 q3]
  from t4 st w3 have w4: "col_width s4 = 5" by simp
  let ?s4 = "s4\<lparr>curr_pose := (9 / 8, 1 / 8, 0)\<rparr>"
  from check_collision_frame[OF c4] check_collision_shape[OF c4] p3
  have p4: "last_pose ?s4 = Some ?p" "curr_pose ?s4 = (9 / 8, 1 / 8, 0)"
    "shape0 (collision_map ?s4) = 20" "shape1 (collision_map ?s4) = 20" by simp_all
  have q4: "0 < shape0 (collision_map ?s4)" "0 < shape1 (collision_map ?s4)" using p4 by simp_all
  from check_collision_ok[OF p4(1) res q4] obtain s5 where
    c5: "check_collision exact_arith cfg_wide ?s4 = Inr s5" by blast
  from stall_counter_progression[OF p4(1,2) c5 q4] nst have w5: "col_width s5 = 1" by simp
  from c1 w1 c2 w2 m2 c3 w3 m3 c4 w4 c5 w5 show ?thesis by blast
qed

text \<open>
  Claim C8. Whatever the last pose, the heading, the width, the offset and the iteration,
  the cell that \<^verbatim>\<open>_check_collision\<close> writes lies within the bounds of a collision map
  that has at least one row and one column, and the call never raises IndexError.
\<close>

theorem collision_writes_in_bounds:
  assumes "0 < shape0 (collision_map s)" and "0 < shape1 (collision_map s)"
  shows "0 \<le> fst (footprint_cell fl cfg (shape0 (collision_map s), shape1 (collision_map s)) p1 width buf ij)
       \<and> fst (footprint_cell fl cfg (shape0 (collision_map s), shape1 (collision_map s)) p1 width buf ij)
           < int (shape0 (collision_map s))
       \<and> 0 \<le> snd (footprint_cell fl cfg (shape0 (collision_map s), shape1 (collision_map s)) p1 width buf ij)
       \<and> snd (footprint_cell fl cfg (shape0 (collision_map s), shape1 (collision_map s)) p1 width buf ij)
           < int (shape1 (collision_map s))
       \<and> check_collision fl cfg s \<noteq> Inl IndexError"
  using footprint_cell_bounds[OF assms] check_collision_not_IndexError[OF assms] by simp

theorem collision_writes_in_bounds_witness:
  "0 < shape0 (collision_map (stall_state 5 (1 / 10, 1 / 10, 0)))
   \<and> 0 < shape1 (collision_map (stall_state 5 (1 / 10, 1 / 10, 0)))
   \<and> footprint_cell exact_arith cfg0 (4, 4) (100, - 100, 0) 5 3 (0, 0) = (0, 3)
   \<and> 0 \<le> fst (footprint_cell exact_arith cfg0 (4, 4) (100, - 100, 0) 5 3 (0, 0))
   \<and> fst (footprint_cell exact_arith cfg0 (4, 4) (100, - 100, 0) 5 3 (0, 0)) < 4
   \<and> check_collision exact_arith cfg0 (stall_state 5 (1 / 10, 1 / 10, 0)) \<noteq> Inl IndexError"
proof -
  have a: "0 < shape0 (collision_map (stall_state 5 (1 / 10, 1 / 10, 0)))"
    and b: "0 < shape1 (collision_map (stall_state 5 (1 / 10, 1 / 10, 0)))"
    by (simp_all add: stall_state_def zeros_def)
  have sh: "shape0 (collision_map (stall_state 5 (1 / 10, 1 / 10, 0))) = 4"
    "shape1 (collision_map (stall_state 5 (1 / 10, 1 / 10, 0))) = 4"
    by (simp_all add: stall_state_def zeros_def)
  have c: "footprint_cell exact_arith cfg0 (4, 4) (100, - 100, 0) 5 3 (0, 0) = (0, 3)"
    by (simp add: footprint_cell_def exact_arith_def cfg0_def threshold_poses_def py_int_def Let_def)
  from collision_writes_in_bounds[OF a b, of exact_arith cfg0 "(100, - 100, 0)" 5 3 "(0, 0)"] a b c sh
  show ?thesis by simp
qed

text \<open>
  Claim C9. When the Euclidean displacement between the last and the current pose is not
  below the collision threshold, \<^verbatim>\<open>_check_collision\<close> returns and leaves the
  collision map unchanged; only the footprint-width counter is updated.
\<close>

theorem no_collision_no_paint:
  assumes "last_pose s = Some (x1, y1, t1)" and "curr_pose s = (x2, y2, t2)"
    and "\<not> get_l2_distance x1 x2 y1 y2 < collision_threshold cfg"
  shows "\<exists>s'. check_collision fl cfg s = Inr s' \<and> collision_map s' = collision_map s
            \<and> s' = s\<lparr>col_width := (if \<bar>fl_sub fl x1 x2\<bar> < fl_lit_005 fl \<and> \<bar>fl_sub fl y1 y2\<bar> < fl_lit_005 fl
                                    then min (col_width s + 2) 5 else 1)\<rparr>"
  using assms
  by (auto simp: check_collision_def stall_update_def Let_def split: if_splits sum.splits)

theorem no_collision_no_paint_witness:
  "last_pose (stall_state 3 (11 / 10, 1 / 10, 0)) = Some (1 / 10, 1 / 10, 0)
   \<and> \<not> get_l2_distance (1 / 10) (11 / 10) (1 / 10) (1 / 10) < collision_threshold cfg0
   \<and> (\<exists>s'. check_collision exact_arith cfg0 (stall_state 3 (11 / 10, 1 / 10, 0)) = Inr s'
          \<and> collision_map s' = collision_map (stall_state 3 (11 / 10, 1 / 10, 0))
          \<and> col_width s' = 1)"
proof -
  have a: "last_pose (stall_state 3 (11 / 10, 1 / 10, 0)) = Some (1 / 10, 1 / 10, 0)"
    and b: "curr_pose (stall_state 3 (11 / 10, 1 / 10, 0)) = (11 / 10, 1 / 10, 0)"
    by (simp_all add: stall_state_def)
  have c: "\<not> get_l2_distance (1 / 10) (11 / 10) (1 / 10) (1 / 10) < collision_threshold cfg0"
    by (simp add: get_l2_distance_def cfg0_def)
  from no_collision_no_paint[OF a b c, where fl = exact_arith] a c show ?thesis
    by (auto simp: exact_arith_def)
qed

subsection \<open>Auxiliary facts about the planning cycle\<close>

lemma get_short_term_goal_state:
  assumes "get_short_term_goal fl cfg env s om gm start win dil = Inr (res, s')"
  shows "s' = s\<lparr>timestep := timestep s + 1\<rparr>"
  using assms
  unfolding get_short_term_goal_def Let_def
  by (auto simp: bind_err_Inr case_prod_beta split: if_splits option.splits)

lemma plan_prepare_frame:
  assumes "plan_prepare fl cfg s om sp = Inr ((om', start, win), s1)"
  shows "last_pose s1 = Some (curr_pose s)
       \<and> curr_pose s1 = (fst sp, fst (snd sp), fst (snd (snd sp)))
       \<and> timestep s1 = timestep s
       \<and> last_action s1 = last_action s
       \<and> curr_obs_dilation_selem_radius s1 = curr_obs_dilation_selem_radius s"
  using assms
  unfolding plan_prepare_def Let_def
  by (auto simp: bind_err_Inr case_prod_beta split: if_splits dest!: check_collision_frame)


lemma plan_act_frame:
  assumes "plan_act fl cfg env s start ori res fg rnd = Inr ((a, cgm), s')"
  shows "s' = s\<lparr>last_action := Some a\<rparr>"
  using assms
  unfolding plan_act_def Let_def
  by (auto simp: case_prod_beta split: if_splits)

lemma plan_stages:
  assumes "plan fl cfg env s om gm fm sp fg dil rnd = Inr ((a, cgm), s')"
  shows "\<exists>om' start win s1 res fg' s2.
           plan_prepare fl cfg s om sp = Inr ((om', start, win), s1)
         \<and> plan_resolve fl cfg env s1 om' gm fm start win fg dil = Inr (res, fg', s2)
         \<and> plan_act fl cfg env s2 start (fst (snd (snd sp))) res fg' rnd = Inr ((a, cgm), s')"
  using assms
  unfolding plan_def
  by (auto simp: bind_err_Inr split: prod.splits)

lemma plan_resolve_radius:
  assumes "plan_resolve fl cfg env s om gm fm start win fg dil = Inr (res, fg', s')"
  shows "curr_obs_dilation_selem_radius s' = curr_obs_dilation_selem_radius s
       \<or> (curr_obs_dilation_selem_radius s' = curr_obs_dilation_selem_radius s - 1
          \<and> min_obs_dilation_selem_radius cfg < curr_obs_dilation_selem_radius s)"
  using assms
  unfolding plan_resolve_def Let_def
  by (auto simp: bind_err_Inr case_prod_beta split: if_splits dest!: get_short_term_goal_state)





lemma plan_radius:
  assumes "plan fl cfg env s om gm fm sp fg dil rnd = Inr ((a, cgm), s')"
  shows "curr_obs_dilation_selem_radius s' = curr_obs_dilation_selem_radius s
       \<or> (curr_obs_dilation_selem_radius s' = curr_obs_dilation_selem_radius s - 1
          \<and> min_obs_dilation_selem_radius cfg < curr_obs_dilation_selem_radius s)"
proof -
  from plan_stages[OF assms(1)] obtain om' start win s1 res fg' s2 where
    a: "plan_prepare fl cfg s om sp = Inr ((om', start, win), s1)"
    and b: "plan_resolve fl cfg env s1 om' gm fm start win fg dil = Inr (res, fg', s2)"
    and c: "plan_act fl cfg env s2 start (fst (snd (snd sp))) res fg' rnd = Inr ((a, cgm), s')"
    by blast
  from plan_prepare_frame[OF a] plan_resolve_radius[OF b] plan_act_frame[OF c]
  show ?thesis by auto
qed

lemma episode_radius:
  assumes "episode fl cfg env s cs = Inr s'"
  shows "curr_obs_dilation_selem_radius s' \<le> curr_obs_dilation_selem_radius s
       \<and> (curr_obs_dilation_selem_radius s' < curr_obs_dilation_selem_radius s
            \<longrightarrow> min_obs_dilation_selem_radius cfg \<le> curr_obs_dilation_selem_radius s')"
  using assms
proof (induction cs arbitrary: s)
  case Nil
  then show ?case by simp
next
  case (Cons c cs)
  from Cons.prems obtain r where r: "plan_step fl cfg env s c = Inr r"
    and rest: "episode fl cfg env (snd r) cs = Inr s'"
    by (auto split: sum.splits)
  obtain a cgm s1 where rr: "r = ((a, cgm), s1)" by (cases r) auto
  from r rr have "plan fl cfg env s (call_obstacle_map c) (call_goal_map c) (call_frontier_map c)
          (call_sensor_pose c) (call_found_goal c) (call_use_dilation_for_stg c) (call_draw c)
        = Inr ((a, cgm), s1)"
    by (simp add: plan_step_def)
  from plan_radius[OF this]
  have step: "curr_obs_dilation_selem_radius s1 = curr_obs_dilation_selem_radius s
       \<or> (curr_obs_dilation_selem_radius s1 = curr_obs_dilation_selem_radius s - 1
          \<and> min_obs_dilation_selem_radius cfg < curr_obs_dilation_selem_radius s)" .
  from Cons.IH[of s1] rest rr
  have ih: "curr_obs_dilation_selem_radius s' \<le> curr_obs_dilation_selem_radius s1
       \<and> (curr_obs_dilation_selem_radius s' < curr_obs_dilation_selem_radius s1
            \<longrightarrow> min_obs_dilation_selem_radius cfg \<le> curr_obs_dilation_selem_radius s')"
    by simp
  from step ih show ?case by auto
qed

lemma episode_append:
  "episode fl cfg env s (cs1 @ cs2) = bind_err (episode fl cfg env s cs1) (\<lambda>s1. episode fl cfg env s1 cs2)"
  by (induction cs1 arbitrary: s) (auto simp: bind_err_def split: sum.splits)

lemma get_short_term_goal_precise_stop:
  assumes "get_short_term_goal fl cfg env s om gm start win False = Inr ((stg, cgm, replan, stop, pt), s')"
  shows "stop \<longleftrightarrow>
           fl_mul fl (fl_norm fl (fst start - int (fst pt), snd start - int (snd pt)))
                     (fl_of_int fl (map_resolution cfg))
             < min_goal_distance_cm cfg"
  using assms
  unfolding get_short_term_goal_def Let_def
  by (auto simp: bind_err_Inr case_prod_beta split: if_splits option.splits)

lemma plan_resolve_cases:
  assumes "get_short_term_goal fl cfg env s om gm start win dil = Inr ((stg, cgm, replan, stop, pt), s1)"
    and "plan_resolve fl cfg env s om gm fm start win fg dil = Inr (res, fg', s')"
  shows "(replan \<and> \<not> stop \<and> fg \<and> \<not> fg')
       \<or> (\<not> (replan \<and> \<not> stop \<and> fg) \<and> res = (stg, cgm, replan, stop, pt) \<and> fg' = fg)"
  using assms
  unfolding plan_resolve_def Let_def
  by (auto simp: bind_err_Inr case_prod_beta split: if_splits)

lemma plan_act_stop:
  assumes "plan_act fl cfg env s start ori (stg, cgm, replan, stop, pt) fg rnd = Inr ((a, m), s')"
    and "\<not> (fg \<and> stop)"
  shows "a \<noteq> STOP"
  using assms
  unfolding plan_act_def Let_def
  by (auto simp: case_prod_beta split: if_splits)

lemma plan_act_empty:
  assumes "nonzero cgm = []"
  shows "plan_act fl cfg env s start ori (stg, cgm, replan, stop, pt) fg rnd = Inl ValueError"
  using assms by (simp add: plan_act_def case_prod_beta Let_def)

lemma plan_prepare_visited:
  assumes "plan_prepare fl cfg s om sp = Inr ((om', start, (gx1, gx2, gy1, gy2)), s1)"
  shows "shape0 om' = shape0 om \<and> shape1 om' = shape1 om
       \<and> (\<exists>rc. start = threshold_poses rc (shape0 om, shape1 om))
       \<and> visited_map s1 =
           fill_view (visited_map s)
             (subview (subview (whole (visited_map s)) (gx1, gx2) (gy1, gy2))
                      (fst start, fst start + 1) (snd start, snd start + 1)) 1"
  using assms
  unfolding plan_prepare_def Let_def
  by (auto simp: bind_err_Inr case_prod_beta map_cells_def split: if_splits
      dest!: check_collision_frame)

lemma slice_bound_in:
  "0 \<le> k \<Longrightarrow> k \<le> int n \<Longrightarrow> slice_bound n k = nat k"
  by (auto simp: slice_bound_def)

lemma slice_bound_zero: "slice_bound n 0 = 0"
  by (simp add: slice_bound_def)

lemma slice_bound_self: "slice_bound n (int n) = n"
  by (simp add: slice_bound_def)

lemma slice_bound_le: "slice_bound n k \<le> n"
  by (auto simp: slice_bound_def)

lemma slice_bound_full:
  "slice_bound n (int x) = x \<longleftrightarrow> x \<le> n"
  by (auto simp: slice_bound_def)

lemma mask_assign_Inr:
  assumes "mask_assign t m x v = Inr t'"
  shows "shape0 m = shape0 t \<and> shape1 m = shape1 t \<and> shape0 t' = shape0 t \<and> shape1 t' = shape1 t
       \<and> (\<forall>i j. cells t' i j = (if i < shape0 t \<and> j < shape1 t \<and> cells m i j = x then v else cells t i j))"
  using assms by (auto simp: mask_assign_def split: if_splits)

lemma traversible_grid_agent:
  assumes grid: "traversible_grid fl cfg s om (a, b) (gx1, gx2, gy1, gy2) = Inr t"
    and a: "0 \<le> a" "a < int (shape0 om)" and b: "0 \<le> b" "b < int (shape1 om)"
    and vis: "visited_map s =
           fill_view vm
             (subview (subview (whole vm) (gx1, gx2) (gy1, gy2)) (a, a + 1) (b, b + 1)) 1"
  shows "shape0 t = shape0 om + 2 \<and> shape1 t = shape1 om + 2
       \<and> cells t (nat a + 1) (nat b + 1) = 1"
proof -
  let ?W = "subview (whole vm) (gx1, gx2) (gy1, gy2)"
  let ?R = "subview (subview (whole (visited_map s)) (gx1, gx2) (gy1, gy2))
              (0, int (shape0 om)) (0, int (shape1 om))"
  let ?C = "subview (subview (whole (collision_map s)) (gx1, gx2) (gy1, gy2))
              (0, int (shape0 om)) (0, int (shape1 om))"
  let ?T = "map_cells (\<lambda>v. fl_sub fl 1 v)
              (cv2_dilate (read_view om (subview (whole om) (0, int (shape0 om)) (0, int (shape1 om))))
                 (curr_obs_dilation_selem_radius s))"
  have shT: "shape0 ?T = shape0 om" "shape1 ?T = shape1 om"
    by (simp_all add: map_cells_def cv2_dilate_def read_view_def subview_def whole_def
        slice_bound_zero slice_bound_self)
  from grid obtain t1 t2 where
    m1: "mask_assign ?T (read_view (collision_map s) ?C) 1 0 = Inr t1"
    and m2: "mask_assign t1 (read_view (visited_map s) ?R) 1 1 = Inr t2"
    and t: "t = add_boundary
                 (fill_view t2
                    (subview (whole t2)
                       (a - 0 - agent_cell_radius cfg, a - 0 + agent_cell_radius cfg + 1)
                       (b - 0 - agent_cell_radius cfg, b - 0 + agent_cell_radius cfg + 1))
                    1) 1"
    unfolding traversible_grid_def Let_def
    by (auto simp: bind_err_Inr)
  from mask_assign_Inr[OF m1] shT have sh1: "shape0 t1 = shape0 om" "shape1 t1 = shape1 om"
    by simp_all
  from mask_assign_Inr[OF m2] sh1
  have shR: "nrows ?R = shape0 om" "ncols ?R = shape1 om"
    and sh2: "shape0 t2 = shape0 om" "shape1 t2 = shape1 om"
    and c2: "\<And>i j. cells t2 i j =
               (if i < shape0 om \<and> j < shape1 om \<and> cells (read_view (visited_map s) ?R) i j = 1
                then 1 else cells t1 i j)"
    by (simp_all add: read_view_def)
  have whole_eq: "whole (visited_map s) = whole vm"
    by (simp add: vis whole_def fill_view_def)
  have nW: "shape0 om \<le> nrows ?W" "shape1 om \<le> ncols ?W"
    using shR unfolding whole_eq
    by (simp_all add: subview_def[of ?W] slice_bound_zero slice_bound_full)
  have sa: "slice_bound (nrows ?W) a = nat a" "slice_bound (nrows ?W) (a + 1) = nat a + 1"
    using a nW by (simp_all add: slice_bound_in nat_add_distrib)
  have sb: "slice_bound (ncols ?W) b = nat b" "slice_bound (ncols ?W) (b + 1) = nat b + 1"
    using b nW by (simp_all add: slice_bound_in nat_add_distrib)
  have cell: "cells (visited_map s) (row0 ?W + nat a) (col0 ?W + nat b) = 1"
    unfolding vis
    by (simp add: fill_view_def in_view_def subview_def[of ?W] sa sb)
  have viscell: "cells (read_view (visited_map s) ?R) (nat a) (nat b) = 1"
    using cell unfolding whole_eq
    by (simp add: read_view_def subview_def[of ?W] slice_bound_zero)
  have inr: "nat a < shape0 om" "nat b < shape1 om" using a b by simp_all
  from c2[of "nat a" "nat b"] viscell inr have c2': "cells t2 (nat a) (nat b) = 1"
    by simp
  have "cells (fill_view t2 v 1) (nat a) (nat b) = 1" for v
    using c2' by (simp add: fill_view_def)
  then show ?thesis
    using a b sh2 unfolding t
    by (simp add: add_boundary_def fill_view_def)
qed


subsection \<open>Runs on the concrete inputs\<close>

lemma upt_small: "[0..<4] = [0, 1, 2, 3]" "[0..<2] = [0, 1]"
  by (simp_all add: upt_rec)

lemma cell_distance_row: "cell_distance (0, b) (0, 0) = \<bar>real_of_int b\<bar>"
  by (simp add: cell_distance_def)

lemma cell_distance_goal: "cell_distance (- 1, - 2) (0, 0) = sqrt 5" "4 < sqrt 5 * 5"
proof -
  show "cell_distance (- 1, - 2) (0, 0) = sqrt 5" by (simp add: cell_distance_def)
  have "(1 :: real) \<le> sqrt 5" by simp
  then show "4 < sqrt 5 * 5" by linarith
qed

lemma disk_one: "disk 1 = [(- 1, 0), (0, - 1), (0, 0), (0, 1), (1, 0)]"
  by (simp add: disk_def upto_rec1)

lemma reset_cfg1: "reset exact_arith cfg1 = Inr init_state"
  by (simp add: reset_def exact_arith_def cfg1_def init_state_def map_shape_def)

lemma plan_prepare_small:
  "\<exists>om s1. plan_prepare exact_arith cfg1 init_state free_map pose0 = Inr ((om, (0, 0), (0, 2, 0, 2)), s1)
       \<and> shape0 om = 2 \<and> shape1 om = 2
       \<and> shape0 (collision_map s1) = 4 \<and> shape1 (collision_map s1) = 4
       \<and> shape0 (visited_map s1) = 4 \<and> shape1 (visited_map s1) = 4
       \<and> timestep s1 = 1 \<and> curr_obs_dilation_selem_radius s1 = 3"
  by (simp add: plan_prepare_def exact_arith_def cfg1_def init_state_def pose0_def py_int_def threshold_poses_def
      free_map_def zeros_def map_cells_def fill_view_def Let_def bind_err_def)

lemma traversible_grid_small:
  assumes "shape0 (collision_map s) = 4" "shape1 (collision_map s) = 4"
    "shape0 (visited_map s) = 4" "shape1 (visited_map s) = 4"
    "shape0 om = 2" "shape1 om = 2"
  shows "\<exists>t. traversible_grid fl cfg s om start (0, 2, 0, 2) = Inr t \<and> shape0 t = 4 \<and> shape1 t = 4"
  using assms
  by (simp add: traversible_grid_def mask_assign_def read_view_def subview_def whole_def
      slice_bound_def map_cells_def cv2_dilate_def bind_err_def add_boundary_def fill_view_def Let_def)

lemma resolve_far:
  assumes tg: "traversible_grid exact_arith cfg1 s om (0, 0) (0, 2, 0, 2) = Inr t"
    and sh: "shape0 t = 4" "shape1 t = 4"
  shows "\<exists>cgm. get_short_term_goal exact_arith cfg1 env0 s om goal_right (0, 0) (0, 2, 0, 2) dil
           = Inr (((0, if dil then 0 else 1), cgm, \<not> dil, dil, (0, 1)),
                  s\<lparr>timestep := timestep s + 1\<rparr>)
         \<and> nonzero cgm = [(0, 1)]"
  unfolding get_short_term_goal_def tg
  by (simp add: bind_err_def exact_arith_def env0_def cfg1_def goal_right_def add_boundary_def setitem_def
      norm_index_def zeros_def closest_goal_def map_cells_def flat_def
      remove_boundary_def read_view_def subview_def whole_def slice_bound_def nonzero_def upt_small
      argmax_pt_def py_int_def cell_distance_row cell_distance_goal binary_dilation_def
      neighbourhood_def disk_one sh Let_def)

lemma resolve_no_goal:
  assumes tg: "traversible_grid exact_arith cfg1 s om (0, 0) (0, 2, 0, 2) = Inr t"
    and sh: "shape0 t = 4" "shape1 t = 4"
  shows "\<exists>cgm. get_short_term_goal exact_arith cfg1 env0 s om no_goal (0, 0) (0, 2, 0, 2) False
           = Inr (((0, 1), cgm, True, True, (0, 0)), s\<lparr>timestep := timestep s + 1\<rparr>)
         \<and> nonzero cgm = []"
  unfolding get_short_term_goal_def tg
  by (simp add: bind_err_def exact_arith_def env0_def cfg1_def no_goal_def add_boundary_def setitem_def
      norm_index_def zeros_def closest_goal_def map_cells_def flat_def
      remove_boundary_def read_view_def subview_def whole_def slice_bound_def nonzero_def upt_small
      argmax_pt_def py_int_def cell_distance_row cell_distance_goal binary_dilation_def
      neighbourhood_def disk_one sh Let_def)

lemma plan_act_far:
  assumes "nonzero cgm = [(0, 1)]" and "k = 0 \<or> k = 1"
  shows "plan_act exact_arith cfg1 env0 s (0, 0) 0 ((0, k), cgm, replan, stop, pt) fg rnd
       = Inr ((if fg \<and> stop then STOP else MOVE_FORWARD, cgm),
              s\<lparr>last_action := Some (if fg \<and> stop then STOP else MOVE_FORWARD)\<rparr>)"
  using assms
  by (auto simp: plan_act_def exact_arith_def env0_def cfg1_def atan2_def degrees_def Let_def)

lemma fallback_stages:
  "\<exists>om s1 cgm. plan_prepare exact_arith cfg1 init_state free_map pose0 = Inr ((om, (0, 0), (0, 2, 0, 2)), s1)
      \<and> get_short_term_goal exact_arith cfg1 env0 s1 om goal_right (0, 0) (0, 2, 0, 2) False
           = Inr (((0, 1), cgm, True, False, (0, 1)), s1\<lparr>timestep := timestep s1 + 1\<rparr>)"
proof -
  from plan_prepare_small obtain om s1 where
    prep: "plan_prepare exact_arith cfg1 init_state free_map pose0 = Inr ((om, (0, 0), (0, 2, 0, 2)), s1)"
    and om: "shape0 om = 2" "shape1 om = 2"
    and s1: "shape0 (collision_map s1) = 4" "shape1 (collision_map s1) = 4"
            "shape0 (visited_map s1) = 4" "shape1 (visited_map s1) = 4"
    by blast
  from traversible_grid_small[OF s1(1-4) om, where fl = exact_arith and cfg = cfg1 and start = "(0, 0)"] obtain t where
    t: "traversible_grid exact_arith cfg1 s1 om (0, 0) (0, 2, 0, 2) = Inr t" "shape0 t = 4" "shape1 t = 4"
    by blast
  from resolve_far[OF t, where dil = False] prep show ?thesis by auto
qed

lemma plan_fallback_run:
  "\<exists>m s'. plan exact_arith cfg1 env0 init_state free_map goal_right goal_right pose0 True False 0
            = Inr ((MOVE_FORWARD, m), s')
        \<and> timestep s' = 3 \<and> curr_obs_dilation_selem_radius s' = 2"
proof -
  from plan_prepare_small obtain om s1 where
    prep: "plan_prepare exact_arith cfg1 init_state free_map pose0 = Inr ((om, (0, 0), (0, 2, 0, 2)), s1)"
    and om: "shape0 om = 2" "shape1 om = 2"
    and s1: "shape0 (collision_map s1) = 4" "shape1 (collision_map s1) = 4"
            "shape0 (visited_map s1) = 4" "shape1 (visited_map s1) = 4"
            "timestep s1 = 1" "curr_obs_dilation_selem_radius s1 = 3"
    by blast
  from traversible_grid_small[OF s1(1-4) om, where fl = exact_arith and cfg = cfg1 and start = "(0, 0)"] obtain t where
    t: "traversible_grid exact_arith cfg1 s1 om (0, 0) (0, 2, 0, 2) = Inr t" "shape0 t = 4" "shape1 t = 4"
    by blast
  from resolve_far[OF t, where dil = False] obtain cgm where
    first: "get_short_term_goal exact_arith cfg1 env0 s1 om goal_right (0, 0) (0, 2, 0, 2) False
              = Inr (((0, 1), cgm, True, False, (0, 1)), s1\<lparr>timestep := timestep s1 + 1\<rparr>)"
    by auto
  let ?s3 = "s1\<lparr>timestep := timestep s1 + 1,
                collision_map := map_cells (\<lambda>v. fl_mul exact_arith v 0) (collision_map s1),
                curr_obs_dilation_selem_radius := curr_obs_dilation_selem_radius s1 - 1\<rparr>"
  have s3: "shape0 (collision_map ?s3) = 4" "shape1 (collision_map ?s3) = 4"
           "shape0 (visited_map ?s3) = 4" "shape1 (visited_map ?s3) = 4"
    using s1 by (simp_all add: map_cells_def)
  from traversible_grid_small[OF s3 om, where fl = exact_arith and cfg = cfg1 and start = "(0, 0)"] obtain t' where
    t': "traversible_grid exact_arith cfg1 ?s3 om (0, 0) (0, 2, 0, 2) = Inr t'" "shape0 t' = 4" "shape1 t' = 4"
    by blast
  from resolve_far[OF t', where dil = True] obtain cgm' where
    second: "get_short_term_goal exact_arith cfg1 env0 ?s3 om goal_right (0, 0) (0, 2, 0, 2) True
              = Inr (((0, 0), cgm', False, True, (0, 1)), ?s3\<lparr>timestep := timestep ?s3 + 1\<rparr>)"
    and nz: "nonzero cgm' = [(0, 1)]"
    by auto
  have res: "plan_resolve exact_arith cfg1 env0 s1 om goal_right goal_right (0, 0) (0, 2, 0, 2) True False
       = Inr (((0, 0), cgm', False, True, (0, 1)), False, ?s3\<lparr>timestep := timestep ?s3 + 1\<rparr>)"
    unfolding plan_resolve_def first
    using second s1 by (simp add: bind_err_def cfg1_def Let_def)
  show ?thesis
    unfolding plan_def prep
    using res plan_act_far[OF nz, of 0] s1
    by (simp add: bind_err_def pose0_def)
qed

lemma plan_dilated_run:
  "\<exists>m s'. plan exact_arith cfg1 env0 init_state free_map goal_right goal_right pose0 True True 0
            = Inr ((STOP, m), s') \<and> nonzero m = [(0, 1)]"
proof -
  from plan_prepare_small obtain om s1 where
    prep: "plan_prepare exact_arith cfg1 init_state free_map pose0 = Inr ((om, (0, 0), (0, 2, 0, 2)), s1)"
    and om: "shape0 om = 2" "shape1 om = 2"
    and s1: "shape0 (collision_map s1) = 4" "shape1 (collision_map s1) = 4"
            "shape0 (visited_map s1) = 4" "shape1 (visited_map s1) = 4"
    by blast
  from traversible_grid_small[OF s1(1-4) om, where fl = exact_arith and cfg = cfg1 and start = "(0, 0)"] obtain t where
    t: "traversible_grid exact_arith cfg1 s1 om (0, 0) (0, 2, 0, 2) = Inr t" "shape0 t = 4" "shape1 t = 4"
    by blast
  from resolve_far[OF t, where dil = True] obtain cgm where
    first: "get_short_term_goal exact_arith cfg1 env0 s1 om goal_right (0, 0) (0, 2, 0, 2) True
              = Inr (((0, 0), cgm, False, True, (0, 1)), s1\<lparr>timestep := timestep s1 + 1\<rparr>)"
    and nz: "nonzero cgm = [(0, 1)]"
    by auto
  have res: "plan_resolve exact_arith cfg1 env0 s1 om goal_right goal_right (0, 0) (0, 2, 0, 2) True True
       = Inr (((0, 0), cgm, False, True, (0, 1)), True, s1\<lparr>timestep := timestep s1 + 1\<rparr>)"
    unfolding plan_resolve_def first by (simp add: bind_err_def)
  show ?thesis
    unfolding plan_def prep
    using res plan_act_far[OF nz, of 0] nz
    by (simp add: bind_err_def pose0_def)
qed

lemma plan_prepare_blocked:
  "\<exists>om s1. plan_prepare exact_arith cfg1 blocked_state wall_map pose0
               = Inr ((om, (0, 0), (0, 2, 0, 2)), s1)
       \<and> shape0 om = 2 \<and> shape1 om = 2 \<and> cells om 0 0 = 1
       \<and> shape0 (collision_map s1) = 4 \<and> shape1 (collision_map s1) = 4
       \<and> cells (collision_map s1) 0 0 = 1
       \<and> shape0 (visited_map s1) = 4 \<and> shape1 (visited_map s1) = 4"
  by (simp add: plan_prepare_def exact_arith_def cfg1_def blocked_state_def pose0_def py_int_def
      threshold_poses_def wall_map_def zeros_def map_cells_def fill_view_def rint_def Let_def bind_err_def)

subsection \<open>The planning cycle\<close>

text \<open>
  Claim C1. The claim asks that a \<^verbatim>\<open>plan\<close> call whose closest-goal mask has no set
  cell when the orientation target is sampled ends in a well-defined outcome. The code
  does not: on the empty goal mask, with a field whose minimum lies on the boundary frame,
  the closest-goal mask is empty, the sampling raises ValueError and the call returns no
  action.
\<close>

theorem plan_empty_closest_goal_raises:
  "plan exact_arith cfg1 env0 init_state free_map no_goal no_goal pose0 False False 0 = Inl ValueError"
proof -
  from plan_prepare_small obtain om s1 where
    prep: "plan_prepare exact_arith cfg1 init_state free_map pose0 = Inr ((om, (0, 0), (0, 2, 0, 2)), s1)"
    and om: "shape0 om = 2" "shape1 om = 2"
    and s1: "shape0 (collision_map s1) = 4" "shape1 (collision_map s1) = 4"
            "shape0 (visited_map s1) = 4" "shape1 (visited_map s1) = 4"
    by blast
  from traversible_grid_small[OF s1(1-4) om, where fl = exact_arith and cfg = cfg1 and start = "(0, 0)"] obtain t where
    t: "traversible_grid exact_arith cfg1 s1 om (0, 0) (0, 2, 0, 2) = Inr t" "shape0 t = 4" "shape1 t = 4"
    by blast
  from resolve_no_goal[OF t] obtain cgm where
    first: "get_short_term_goal exact_arith cfg1 env0 s1 om no_goal (0, 0) (0, 2, 0, 2) False
              = Inr (((0, 1), cgm, True, True, (0, 0)), s1\<lparr>timestep := timestep s1 + 1\<rparr>)"
    and nz: "nonzero cgm = []"
    by auto
  have res: "plan_resolve exact_arith cfg1 env0 s1 om no_goal no_goal (0, 0) (0, 2, 0, 2) False False
       = Inr (((0, 1), cgm, True, True, (0, 0)), False, s1\<lparr>timestep := timestep s1 + 1\<rparr>)"
    unfolding plan_resolve_def first by (simp add: bind_err_def)
  show ?thesis
    unfolding plan_def prep
    using res plan_act_empty[OF nz]
    by (simp add: bind_err_def)
qed




text \<open>
  Claim C4. Over the \<^verbatim>\<open>plan\<close> calls of an episode the obstacle-dilation radius never
  increases, it never exceeds the initial value that \<^verbatim>\<open>reset\<close> gave it, and once it
  has been reduced it is not below the configured minimum; when the initial value is not
  below the minimum, neither is any later value.
\<close>

theorem dilation_radius_monotone:
  assumes "reset fl cfg = Inr s0" and "episode fl cfg env s0 cs1 = Inr s" and "episode fl cfg env s cs2 = Inr s'"
  shows "curr_obs_dilation_selem_radius s' \<le> curr_obs_dilation_selem_radius s
       \<and> curr_obs_dilation_selem_radius s \<le> start_obs_dilation_selem_radius cfg
       \<and> (curr_obs_dilation_selem_radius s' < start_obs_dilation_selem_radius cfg
            \<longrightarrow> min_obs_dilation_selem_radius cfg \<le> curr_obs_dilation_selem_radius s')
       \<and> (min_obs_dilation_selem_radius cfg \<le> start_obs_dilation_selem_radius cfg
            \<longrightarrow> min_obs_dilation_selem_radius cfg \<le> curr_obs_dilation_selem_radius s')"
proof -
  from assms(1) have r0: "curr_obs_dilation_selem_radius s0 = start_obs_dilation_selem_radius cfg"
    by (auto simp: reset_def split: if_splits)
  from assms(2,3) have "episode fl cfg env s0 (cs1 @ cs2) = Inr s'"
    by (simp add: episode_append bind_err_def)
  from episode_radius[OF this] episode_radius[OF assms(2)] episode_radius[OF assms(3)] r0
  show ?thesis by auto
qed

theorem dilation_radius_monotone_witness:
  "reset exact_arith cfg1 = Inr init_state \<and> episode exact_arith cfg1 env0 init_state [] = Inr init_state
   \<and> (\<exists>s'. episode exact_arith cfg1 env0 init_state [call_fallback] = Inr s'
          \<and> curr_obs_dilation_selem_radius s' = 2
          \<and> curr_obs_dilation_selem_radius s' \<le> curr_obs_dilation_selem_radius init_state
          \<and> min_obs_dilation_selem_radius cfg1 \<le> curr_obs_dilation_selem_radius s')"
proof -
  from plan_fallback_run obtain m s' where
    run: "plan exact_arith cfg1 env0 init_state free_map goal_right goal_right pose0 True False 0
            = Inr ((MOVE_FORWARD, m), s')"
    and r: "curr_obs_dilation_selem_radius s' = 2" by blast
  have e0: "episode exact_arith cfg1 env0 init_state [] = Inr init_state" by simp
  from run have e1: "episode exact_arith cfg1 env0 init_state [call_fallback] = Inr s'"
    by (simp add: plan_step_def call_fallback_def)
  from dilation_radius_monotone[OF reset_cfg1 e0 e1] r
  have "curr_obs_dilation_selem_radius s' \<le> curr_obs_dilation_selem_radius init_state
      \<and> min_obs_dilation_selem_radius cfg1 \<le> curr_obs_dilation_selem_radius s'"
    by (simp add: cfg1_def)
  with reset_cfg1 e0 e1 r show ?thesis by blast
qed

text \<open>
  Claim C6. In every \<^verbatim>\<open>plan\<close> cycle on a non-empty obstacle grid, whatever the
  obstacle grid, the collision map and the visited map, the agent's clamped cell lies in
  the grid and has the value 1 in every traversability grid that
  \<^verbatim>\<open>_get_short_term_goal\<close> builds in that cycle, the cell being shifted by the
  boundary frame. This holds for the run on the goal map and for the run on the frontier
  map, whose states differ from the prepared state in the collision map, the radius and
  the counter only, and it holds at the edge of the grid, where the square written around
  the agent can miss the agent's row or column: the visited mark of the cycle covers the cell.
\<close>

theorem agent_cell_traversible:
  assumes prepare: "plan_prepare fl cfg s om sp = Inr ((om', start, win), s1)"
    and visited: "visited_map s2 = visited_map s1"
    and grid: "traversible_grid fl cfg s2 om' start win = Inr t"
    and nonempty: "0 < shape0 om" "0 < shape1 om"
  shows "0 \<le> fst start \<and> fst start < int (shape0 om) \<and> 0 \<le> snd start \<and> snd start < int (shape1 om)
       \<and> shape0 t = shape0 om + 2 \<and> shape1 t = shape1 om + 2
       \<and> cells t (nat (fst start) + 1) (nat (snd start) + 1) = 1"
proof -
  obtain gx1 gx2 gy1 gy2 where win: "win = (gx1, gx2, gy1, gy2)" by (cases win) auto
  obtain a b where start: "start = (a, b)" by (cases start) auto
  from plan_prepare_visited[OF prepare[unfolded win]] start
  have sh: "shape0 om' = shape0 om" "shape1 om' = shape1 om"
    and rc: "\<exists>rc. (a, b) = threshold_poses rc (shape0 om, shape1 om)"
    and vis: "visited_map s1 =
           fill_view (visited_map s)
             (subview (subview (whole (visited_map s)) (gx1, gx2) (gy1, gy2)) (a, a + 1) (b, b + 1)) 1"
    by simp_all
  from rc obtain p where p: "(a, b) = threshold_poses p (shape0 om, shape1 om)" by blast
  from threshold_poses_bounds[of "(shape0 om, shape1 om)" p] nonempty p[symmetric]
  have ab: "0 \<le> a" "a < int (shape0 om)" "0 \<le> b" "b < int (shape1 om)" by simp_all
  from ab sh have ab': "0 \<le> a" "a < int (shape0 om')" "0 \<le> b" "b < int (shape1 om')" by simp_all
  from traversible_grid_agent[OF grid[unfolded win start] ab' vis[folded visited]] sh ab start
  show ?thesis by simp
qed

theorem agent_cell_traversible_witness:
  "\<exists>om s1 t. plan_prepare exact_arith cfg1 blocked_state wall_map pose0
                 = Inr ((om, (0, 0), (0, 2, 0, 2)), s1)
       \<and> cells om 0 0 = 1 \<and> cells (collision_map s1) 0 0 = 1
       \<and> 0 < shape0 wall_map \<and> 0 < shape1 wall_map
       \<and> traversible_grid exact_arith cfg1 s1 om (0, 0) (0, 2, 0, 2) = Inr t
       \<and> cells t 1 1 = 1"
proof -
  from plan_prepare_blocked obtain om s1 where
    prep: "plan_prepare exact_arith cfg1 blocked_state wall_map pose0
             = Inr ((om, (0, 0), (0, 2, 0, 2)), s1)"
    and om: "shape0 om = 2" "shape1 om = 2" and o: "cells om 0 0 = 1"
    and s1: "shape0 (collision_map s1) = 4" "shape1 (collision_map s1) = 4"
            "shape0 (visited_map s1) = 4" "shape1 (visited_map s1) = 4"
    and c: "cells (collision_map s1) 0 0 = 1"
    by blast
  from traversible_grid_small[OF s1 om, where fl = exact_arith and cfg = cfg1 and start = "(0, 0)"]
  obtain t where t: "traversible_grid exact_arith cfg1 s1 om (0, 0) (0, 2, 0, 2) = Inr t" by blast
  have ne: "0 < shape0 wall_map" "0 < shape1 wall_map" by (simp_all add: wall_map_def)
  from agent_cell_traversible[OF prep refl t ne] have "cells t 1 1 = 1" by simp
  with prep o c ne t show ?thesis by blast
qed

text \<open>
  Claim C7, as amended. In precise mode (\<open>use_dilation_for_stg\<close> false), a
  \<^verbatim>\<open>plan\<close> call with the goal found, in which the metric distance from the agent's
  cell to the closest-goal cell of the first resolver run is at or above the minimum goal
  distance, never returns STOP.
\<close>

theorem no_stop_beyond_acceptance:
  assumes run: "plan fl cfg env s om gm fm sp True False rnd = Inr ((a, m), s')"
    and prepare: "plan_prepare fl cfg s om sp = Inr ((om', start, win), s1)"
    and first: "get_short_term_goal fl cfg env s1 om' gm start win False
                  = Inr ((stg, cgm, replan, stop, pt), s2)"
    and far: "min_goal_distance_cm cfg
                \<le> fl_mul fl (fl_norm fl (fst start - int (fst pt), snd start - int (snd pt)))
                             (fl_of_int fl (map_resolution cfg))"
  shows "a \<noteq> STOP"
proof -
  from get_short_term_goal_precise_stop[OF first] far have ns: "\<not> stop" by simp
  from plan_stages[OF run] prepare obtain res fg' s3 where
    b: "plan_resolve fl cfg env s1 om' gm fm start win True False = Inr (res, fg', s3)"
    and c: "plan_act fl cfg env s3 start (fst (snd (snd sp))) res fg' rnd = Inr ((a, m), s')"
    by auto
  obtain stg' cgm' replan' stop' pt' where res: "res = (stg', cgm', replan', stop', pt')"
    by (cases res) auto
  from plan_resolve_cases[OF first b] ns res have "\<not> (fg' \<and> stop')" by auto
  from plan_act_stop[OF c[unfolded res] this] show ?thesis .
qed

theorem no_stop_beyond_acceptance_witness:
  "\<exists>m s'. plan exact_arith cfg1 env0 init_state free_map goal_right goal_right pose0 True False 0
             = Inr ((MOVE_FORWARD, m), s')
        \<and> min_goal_distance_cm cfg1
             \<le> fl_mul exact_arith (fl_norm exact_arith (0 - 0, 0 - 1))
                                   (fl_of_int exact_arith (map_resolution cfg1))
        \<and> MOVE_FORWARD \<noteq> STOP"
proof -
  from plan_fallback_run obtain m s' where
    run: "plan exact_arith cfg1 env0 init_state free_map goal_right goal_right pose0 True False 0
            = Inr ((MOVE_FORWARD, m), s')" by blast
  from fallback_stages obtain om s1 cgm where
    prep: "plan_prepare exact_arith cfg1 init_state free_map pose0 = Inr ((om, (0, 0), (0, 2, 0, 2)), s1)"
    and first: "get_short_term_goal exact_arith cfg1 env0 s1 om goal_right (0, 0) (0, 2, 0, 2) False
           = Inr (((0, 1), cgm, True, False, (0, 1)), s1\<lparr>timestep := timestep s1 + 1\<rparr>)"
    by blast
  have far: "min_goal_distance_cm cfg1
             \<le> fl_mul exact_arith
                   (fl_norm exact_arith (fst (0 :: int, 0 :: int) - int (fst (0 :: nat, 1 :: nat)),
                                         snd (0 :: int, 0 :: int) - int (snd (0 :: nat, 1 :: nat))))
                   (fl_of_int exact_arith (map_resolution cfg1))"
    by (simp add: cfg1_def exact_arith_def cell_distance_def)
  from no_stop_beyond_acceptance[OF run prep first far] run far show ?thesis by simp
qed

text \<open>
  The claim as stated fails in dilated mode, where the stop flag is the solver's own: the
  agent at cell (0, 0), the only closest-goal cell (0, 1) at 5 cm, a minimum goal distance
  of 4 cm, and the action is STOP.
\<close>

theorem stop_beyond_acceptance_counterexample:
  "map_sum id (fst \<circ> fst)
     (plan exact_arith cfg1 env0 init_state free_map goal_right goal_right pose0 True True 0) = Inr STOP
   \<and> map_sum id (nonzero \<circ> snd \<circ> fst)
       (plan exact_arith cfg1 env0 init_state free_map goal_right goal_right pose0 True True 0) = Inr [(0, 1)]
   \<and> map_sum id (fst \<circ> snd \<circ> fst) (plan_prepare exact_arith cfg1 init_state free_map pose0) = Inr (0, 0)
   \<and> min_goal_distance_cm cfg1
       \<le> fl_mul exact_arith (fl_norm exact_arith (0 - 0, 0 - 1))
                             (fl_of_int exact_arith (map_resolution cfg1))"
proof -
  from plan_dilated_run obtain m s' where
    "plan exact_arith cfg1 env0 init_state free_map goal_right goal_right pose0 True True 0 = Inr ((STOP, m), s')"
    "nonzero m = [(0, 1)]" by blast
  moreover from plan_prepare_small obtain om s1 where
    "plan_prepare exact_arith cfg1 init_state free_map pose0 = Inr ((om, (0, 0), (0, 2, 0, 2)), s1)" by blast
  moreover have "min_goal_distance_cm cfg1
       \<le> fl_mul exact_arith (fl_norm exact_arith (0 - 0, 0 - 1))
                             (fl_of_int exact_arith (map_resolution cfg1))"
    by (simp add: cfg1_def exact_arith_def cell_distance_def)
  ultimately show ?thesis by simp
qed



end
